theory Spec2Isabelle
  imports Complex_Main "HOL-Library.Sublist" "HOL-Library.Log_Nat"
begin

section \<open>JavaScript values used by the planner\<close>

text \<open>
  Strings are lists of characters, and the model covers ASCII text: \<open>toLowerCase\<close> and
  \<open>toUpperCase\<close> act on the letters A to Z, and the regular-expression class \<open>\s\<close> is
  the six ASCII blanks. Numbers that the code keeps integral are integers; quotients and
  scaled durations are rationals, with the one inexact double product written out;
  \<open>NaN\<close> gets its own constructor where the code can produce it (\<open>Number\<close> on a
  malformed time text).
\<close>

definition toLowerChar :: "char \<Rightarrow> char" where
  "toLowerChar c =
     (case map_of (zip ''ABCDEFGHIJKLMNOPQRSTUVWXYZ'' ''abcdefghijklmnopqrstuvwxyz'') c of
        Some d \<Rightarrow> d
      | None \<Rightarrow> c)"

definition toLowerCase :: "string \<Rightarrow> string" where
  "toLowerCase s = map toLowerChar s"

definition toUpperChar :: "char \<Rightarrow> char" where
  "toUpperChar c =
     (case map_of (zip ''abcdefghijklmnopqrstuvwxyz'' ''ABCDEFGHIJKLMNOPQRSTUVWXYZ'') c of
        Some d \<Rightarrow> d
      | None \<Rightarrow> c)"

definition toUpperCase :: "string \<Rightarrow> string" where
  "toUpperCase s = map toUpperChar s"

text \<open>
  \<open>s.split(sep)\<close> for a one-character separator. The result is never empty (the first
  branch of the \<open>case\<close> is not reached) and keeps empty pieces.
\<close>

fun str_split :: "char \<Rightarrow> string \<Rightarrow> string list" where
  "str_split sep [] = [[]]"
| "str_split sep (c # cs) =
     (case str_split sep cs of
        [] \<Rightarrow> [[c]]
      | piece # pieces \<Rightarrow>
          if c = sep then [] # piece # pieces else (c # piece) # pieces)"

text \<open>\<open>s.includes(sub)\<close>: \<open>sub\<close> occurs in \<open>s\<close> as a contiguous run.\<close>

fun str_includes :: "string \<Rightarrow> string \<Rightarrow> bool" where
  "str_includes [] sub = (sub = [])"
| "str_includes (c # cs) sub = (prefix sub (c # cs) \<or> str_includes cs sub)"

text \<open>\<open>x || d\<close> on an optional number: absent and \<open>0\<close> are both falsy.\<close>

definition orNum :: "int option \<Rightarrow> int \<Rightarrow> int" where
  "orNum x d = (case x of None \<Rightarrow> d | Some v \<Rightarrow> if v = 0 then d else v)"

text \<open>\<open>x || d\<close> on an optional string: absent and the empty string are both falsy.\<close>

definition orStr :: "string option \<Rightarrow> string \<Rightarrow> string" where
  "orStr x d = (case x of None \<Rightarrow> d | Some v \<Rightarrow> if v = [] then d else v)"

text \<open>Truthiness of an optional string.\<close>

definition truthyStr :: "string option \<Rightarrow> bool" where
  "truthyStr x = (case x of None \<Rightarrow> False | Some v \<Rightarrow> v \<noteq> [])"

section \<open>Task graph\<close>

text \<open>
  A frontier node as the modules read and write it. Every field that the code guards
  with \<open>||\<close>, \<open>?.\<close> or a truthiness test is optional.
\<close>

record node =
  n_id :: string
  n_title :: string
  n_description :: "string option"
  n_branch :: "string option"
  n_difficulty :: "int option"
  n_duration :: "string option"
  n_prerequisites :: "string list option"
  n_learningOutcome :: "string option"
  n_priority :: "int option"
  n_completed :: bool
  n_opportunityType :: "string option"
  n_generated :: bool
  n_sourceBlock :: "string option"
  n_completedAt :: "int option"
  n_actualDifficulty :: "int option"
  n_actualDuration :: "int option"

text \<open>
  The HTA document. The completion and scheduling modules read and write
  \<open>frontierNodes\<close>, the task-intelligence module \<open>frontier_nodes\<close>; both fields can
  be present in one document.
\<close>

record hta =
  frontierNodes :: "node list option"
  frontier_nodes :: "node list option"
  lastUpdated :: "int option"
  last_evolution :: "int option"

definition orNodes :: "node list option \<Rightarrow> node list" where
  "orNodes x = (case x of None \<Rightarrow> [] | Some ns \<Rightarrow> ns)"

subsection \<open>Readiness\<close>

definition completedNodeIds :: "node list \<Rightarrow> string list" where
  "completedNodeIds nodes = map n_id (filter n_completed nodes)"

text \<open>
  The filter callback that \<open>getReadyTasks\<close>, \<open>getReadyNodes\<close>, \<open>selectOptimalTask\<close>
  and \<open>getAvailableTasksCount\<close> each spell out in the same words.
\<close>

definition readyFilter :: "node list \<Rightarrow> node \<Rightarrow> bool" where
  "readyFilter nodes nd =
     (if n_completed nd then False
      else (case n_prerequisites nd of
              Some ps \<Rightarrow>
                if length ps > 0
                then list_all (\<lambda>prereq.
                       prereq \<in> set (completedNodeIds nodes) \<or>
                       list_ex (\<lambda>n. n_title n = prereq \<and> n_completed n) nodes) ps
                else True
            | None \<Rightarrow> True))"

definition getReadyNodes :: "node list \<Rightarrow> node list" where
  "getReadyNodes nodes = filter (readyFilter nodes) nodes"

text \<open>
  \<open>getReadyTasks\<close> sorts the ready nodes by descending priority; the sort of the
  JavaScript array is stable, as \<open>sort_key\<close> is.
\<close>

definition getReadyTasks :: "hta \<Rightarrow> node list" where
  "getReadyTasks htaData =
     (let nodes = orNodes (frontierNodes htaData)
      in sort_key (\<lambda>n. - orNum (n_priority n) 200) (filter (readyFilter nodes) nodes))"

definition availableTasks :: "hta \<Rightarrow> node list" where
  "availableTasks htaData =
     (let nodes = orNodes (frontier_nodes htaData)
      in filter (readyFilter nodes) nodes)"

definition getAvailableTasksCount :: "hta \<Rightarrow> nat" where
  "getAvailableTasksCount htaData = length (availableTasks htaData)"

text \<open>The prerequisite list of a node, empty when the field is absent.\<close>

definition prereqsOf :: "node \<Rightarrow> string list" where
  "prereqsOf nd = (case n_prerequisites nd of None \<Rightarrow> [] | Some ps \<Rightarrow> ps)"

text \<open>A prerequisite resolves when a completed node carries it as id or as title.\<close>

definition resolves :: "node list \<Rightarrow> string \<Rightarrow> bool" where
  "resolves nodes p = (\<exists>m \<in> set nodes. n_completed m \<and> (n_id m = p \<or> n_title m = p))"

definition mkNode :: "string \<Rightarrow> string \<Rightarrow> string list option \<Rightarrow> bool \<Rightarrow> node" where
  "mkNode i t ps c =
     \<lparr> n_id = i, n_title = t, n_description = None, n_branch = None,
       n_difficulty = None, n_duration = None, n_prerequisites = ps,
       n_learningOutcome = None, n_priority = None, n_completed = c,
       n_opportunityType = None, n_generated = False, n_sourceBlock = None,
       n_completedAt = None, n_actualDifficulty = None, n_actualDuration = None \<rparr>"

section \<open>Durations written as text\<close>

definition isDigit :: "char \<Rightarrow> bool" where
  "isDigit c = (c \<in> set ''0123456789'')"

definition isSpace :: "char \<Rightarrow> bool" where
  "isSpace c = (c \<in> set [CHR '' '', CHR 0x09, CHR 0x0A, CHR 0x0B, CHR 0x0C, CHR 0x0D])"

definition digitVal :: "char \<Rightarrow> int" where
  "digitVal c = int (of_char c) - 48"

text \<open>
  \<open>parseInt\<close> on a run of decimal digits, as the exact integer: the double that
  JavaScript computes is this value for every run below \<open>2^53\<close>, so for every run of
  at most 15 digits.
\<close>

definition parseIntDigits :: "string \<Rightarrow> int" where
  "parseIntDigits ds = foldl (\<lambda>acc c. 10 * acc + digitVal c) 0 ds"

text \<open>
  The regular expressions \<open>/(\d+)\s*(minute|hour|min|hr)/i\<close> and
  \<open>/(\d+)\s*(minute|hour)/i\<close>, given by their list of unit alternatives.
  \<open>matchAt\<close> is an attempt at the head of the text: the digits are taken greedily, then
  the blanks, then the first alternative that fits, compared case-insensitively.
  Giving back a digit or a blank never helps, since no alternative starts with one, so
  the greedy attempt is the only one. \<open>regexMatch\<close> tries every start from the left, as
  \<open>String.prototype.match\<close> does, and returns the two capture groups.
\<close>

definition matchAt :: "string list \<Rightarrow> string \<Rightarrow> (string \<times> string) option" where
  "matchAt units s =
     (let digits = takeWhile isDigit s;
          rest = dropWhile isSpace (dropWhile isDigit s)
      in if digits = [] then None
         else (case find (\<lambda>u. prefix u (toLowerCase rest)) units of
                 None \<Rightarrow> None
               | Some u \<Rightarrow> Some (digits, take (length u) rest)))"

fun regexMatch :: "string list \<Rightarrow> string \<Rightarrow> (string \<times> string) option" where
  "regexMatch units [] = None"
| "regexMatch units (c # cs) =
     (case matchAt units (c # cs) of
        Some m \<Rightarrow> Some m
      | None \<Rightarrow> regexMatch units cs)"

definition parseTimeToMinutes :: "string \<Rightarrow> int" where
  "parseTimeToMinutes timeStr =
     (case regexMatch [''minute'', ''hour'', ''min'', ''hr''] timeStr of
        None \<Rightarrow> 30
      | Some (digits, u) \<Rightarrow>
          (let v = parseIntDigits digits; unit = toLowerCase u
           in if prefix ''hour'' unit \<or> prefix ''hr'' unit then v * 60 else v))"

definition parseDuration :: "string \<Rightarrow> int" where
  "parseDuration durationStr =
     (case regexMatch [''minute'', ''hour''] durationStr of
        None \<Rightarrow> 30
      | Some (digits, u) \<Rightarrow>
          (let v = parseIntDigits digits; unit = toLowerCase u
           in if prefix ''hour'' unit then v * 60 else v))"

section \<open>Task selector\<close>

text \<open>\<open>task.title + " " + task.description\<close>: an absent description prints as \<open>undefined\<close>.\<close>

definition taskText :: "node \<Rightarrow> string" where
  "taskText task =
     toLowerCase (n_title task @ '' '' @
       (case n_description task of None \<Rightarrow> ''undefined'' | Some d \<Rightarrow> d))"

definition isContextRelevant :: "node \<Rightarrow> string \<Rightarrow> bool" where
  "isContextRelevant task context =
     (let contextLower = toLowerCase context;
          keywords = filter (\<lambda>word. length word > 3) (str_split CHR '' '' contextLower)
      in list_ex (\<lambda>keyword. str_includes (taskText task) keyword) keywords)"

definition calculateTaskScore :: "node \<Rightarrow> int \<Rightarrow> int \<Rightarrow> string \<Rightarrow> int" where
  "calculateTaskScore task energyLevel timeInMinutes contextFromMemory =
     (let score = orNum (n_priority task) 200;
          taskDifficulty = orNum (n_difficulty task) 3;
          energyMatch = 5 - \<bar>energyLevel - taskDifficulty\<bar>;
          score = score + energyMatch * 20;
          taskDuration = parseTimeToMinutes (orStr (n_duration task) ''30 minutes'');
          timeMatch = (if timeInMinutes \<ge> taskDuration then 30 else - 50);
          score = score + timeMatch;
          score = (if contextFromMemory \<noteq> [] \<and> isContextRelevant task contextFromMemory
                   then score + 50 else score);
          score = (if n_opportunityType task = Some ''breakthrough_amplification''
                   then score + 100 else score);
          score = (if n_generated task then score + 25 else score)
      in score)"

text \<open>
  The score as claim C2 words it, for comparison with \<open>calculateTaskScore\<close>: tokens are
  the maximal blank-free runs of the context, the text searched is the title directly
  followed by the description, and the defaults apply to absent fields only.
\<close>

fun splitWhere :: "(char \<Rightarrow> bool) \<Rightarrow> string \<Rightarrow> string list" where
  "splitWhere P [] = [[]]"
| "splitWhere P (c # cs) =
     (case splitWhere P cs of
        [] \<Rightarrow> [[c]]
      | piece # pieces \<Rightarrow>
          if P c then [] # piece # pieces else (c # piece) # pieces)"

definition whitespaceTokens :: "string \<Rightarrow> string list" where
  "whitespaceTokens s = filter (\<lambda>w. w \<noteq> []) (splitWhere isSpace s)"

definition claimedTaskScore :: "node \<Rightarrow> int \<Rightarrow> int \<Rightarrow> string \<Rightarrow> int" where
  "claimedTaskScore task energyLevel timeInMinutes context =
     (case n_priority task of None \<Rightarrow> 200 | Some p \<Rightarrow> p)
     + (5 - \<bar>energyLevel - (case n_difficulty task of None \<Rightarrow> 3 | Some d \<Rightarrow> d)\<bar>) * 20
     + (if parseTimeToMinutes (case n_duration task of None \<Rightarrow> ''30 minutes'' | Some d \<Rightarrow> d)
           \<le> timeInMinutes then 30 else - 50)
     + (if list_ex (\<lambda>tok. length tok > 3 \<and>
              str_includes
                (toLowerCase (n_title task @ (case n_description task of None \<Rightarrow> [] | Some d \<Rightarrow> d)))
                (toLowerCase tok))
            (whitespaceTokens context)
        then 50 else 0)
     + (if n_opportunityType task = Some ''breakthrough_amplification'' then 100 else 0)
     + (if n_generated task then 25 else 0)"

definition graphTask :: node where
  "graphTask =
     \<lparr> n_id = ''t1'', n_title = ''Graph basics'', n_description = Some ''intro'',
       n_branch = None, n_difficulty = Some 3, n_duration = Some ''30 minutes'',
       n_prerequisites = None, n_learningOutcome = None, n_priority = Some 200,
       n_completed = False, n_opportunityType = None, n_generated = False,
       n_sourceBlock = None, n_completedAt = None, n_actualDifficulty = None,
       n_actualDuration = None \<rparr>"

section \<open>Documents and the store\<close>

record preferences =
  wake_time :: "string option"
  sleep_time :: "string option"
  meal_times :: "string list option"
  focus_duration :: "string option"
  break_preferences :: "string option"

record config =
  activePath :: "string option"
  life_structure_preferences :: "preferences option"

record feedbackItem =
  f_text :: string
  f_sentiment :: "string option"

record opportunityContext =
  engagementLevel :: int
  unexpectedResults :: "string list"
  newSkillsRevealed :: "string list"
  externalFeedback :: "feedbackItem list"
  socialReactions :: "string list"
  viralPotential :: bool
  industryConnections :: "string list"
  serendipitousEvents :: "string list"

text \<open>The \<open>priority\<close> of a block is a label for meals, breaks and habits, a number for tasks.\<close>

datatype blockPriority = Label string | Number int

text \<open>
  A time block. \<open>b_startTime\<close> is the text that \<open>formatTime\<close> renders;
  \<open>b_startMinutes\<close> records the cursor value that was rendered, so that statements
  about the order of blocks need not parse the text back. The fields from
  \<open>b_completedAt\<close> on are absent until the block is completed.
\<close>

record block =
  b_id :: string
  b_type :: string
  b_title :: string
  b_description :: "string option"
  b_startTime :: string
  b_startMinutes :: int
  b_duration :: int
  b_difficulty :: "int option"
  b_taskId :: "string option"
  b_branch :: "string option"
  b_completed :: bool
  b_priority :: blockPriority
  b_completedAt :: "int option"
  b_outcome :: "string option"
  b_learned :: "string option"
  b_nextQuestions :: "string option"
  b_energyAfter :: "int option"
  b_difficultyRating :: "int option"
  b_breakthrough :: bool
  b_opportunityContext :: "opportunityContext option"

record schedule =
  s_date :: string
  s_projectId :: string
  s_activePath :: string
  s_energyLevel :: int
  s_focusType :: string
  s_context :: string
  s_preferences :: preferences
  s_blocks :: "block list option"
  s_generated :: int

record completedTopic =
  ct_topic :: string
  ct_description :: string
  ct_completedAt :: "int option"
  ct_outcome :: "string option"
  ct_learned :: "string option"
  ct_difficulty :: "int option"
  ct_energyAfter :: "int option"
  ct_breakthrough :: bool
  ct_blockId :: string
  ct_taskId :: "string option"

record insight =
  i_insight :: string
  i_topic :: string
  i_timestamp :: "int option"
  i_context :: "string option"

record knowledgeGap =
  kg_question :: string
  kg_relatedTopic :: string
  kg_identified :: "int option"
  kg_priority :: string

record progression =
  p_level :: int
  p_completedTasks :: int
  p_totalEngagement :: int

record history =
  completedTopics :: "completedTopic list"
  insights :: "insight list"
  knowledgeGaps :: "knowledgeGap list"
  skillProgression :: "string \<rightharpoonup> progression"

text \<open>
  The store holds what the persistence layer returns: a document that is missing, fails
  to parse or fails the integrity check reads as \<open>None\<close>; saving always succeeds.
  Times are milliseconds since the epoch, \<open>today\<close> is the date part of the clock.
\<close>

record store =
  activeProject :: "string option"
  configs :: "string \<rightharpoonup> config"
  daySchedules :: "string \<times> string \<rightharpoonup> schedule"
  projectHTA :: "string \<rightharpoonup> hta"
  pathHTA :: "string \<times> string \<rightharpoonup> hta"
  projectHistory :: "string \<rightharpoonup> history"
  pathHistory :: "string \<times> string \<rightharpoonup> history"
  errorLog :: "(string \<times> string) list"

record clock =
  now :: int
  today :: string

definition requireActiveProject :: "store \<Rightarrow> string + string" where
  "requireActiveProject st =
     (case activeProject st of
        None \<Rightarrow> Inl ''No active project. Create or switch to a project first.''
      | Some activeProjectId \<Rightarrow>
          if activeProjectId = []
          then Inl ''No active project. Create or switch to a project first.''
          else (case configs st activeProjectId of
                  None \<Rightarrow> Inl (''Active project '' @ [CHR 0x22] @ activeProjectId @ [CHR 0x22]
                               @ '' not found. Project data may be corrupted.'')
                | Some _ \<Rightarrow> Inr activeProjectId))"

definition logError :: "string \<Rightarrow> string \<Rightarrow> store \<Rightarrow> store" where
  "logError operation message st = st\<lparr>errorLog := errorLog st @ [(operation, message)]\<rparr>"

section \<open>Task intelligence\<close>

text \<open>Numbers printed into identifiers and times.\<close>

fun showNat :: "nat \<Rightarrow> string" where
  "showNat n =
     (if n < 10 then [''0123456789'' ! n]
      else showNat (n div 10) @ [''0123456789'' ! (n mod 10)])"

definition showInt :: "int \<Rightarrow> string" where
  "showInt i = (if i < 0 then CHR ''-'' # showNat (nat (- i)) else showNat (nat i))"

definition selectOptimalTask :: "hta \<Rightarrow> int \<Rightarrow> string \<Rightarrow> string \<Rightarrow> (node \<times> int) option" where
  "selectOptimalTask htaData energyLevel timeAvailable contextFromMemory =
     (let available = availableTasks htaData
      in if length available = 0 then None
         else
           (let timeInMinutes = parseTimeToMinutes timeAvailable;
                scoredTasks = map (\<lambda>task.
                  (task, calculateTaskScore task energyLevel timeInMinutes contextFromMemory))
                  available;
                sorted = sort_key (\<lambda>(task, score). - score) scoredTasks
            in Some (hd sorted)))"

record feedbackAnalysis =
  fa_sentiment :: string
  fa_keywords :: "string list"
  fa_original :: "string option"

record analysis =
  a_completedTasks :: nat
  a_totalTasks :: nat
  a_availableTasks :: nat
  a_stuckIndicators :: "string list"
  a_userFeedback :: feedbackAnalysis
  a_recommendedEvolution :: "string option"

text \<open>
  The intelligence provider: \<open>requestIntelligence(type, payload)\<close> throws (\<open>Inl\<close> with the
  message) or returns a response, possibly \<open>null\<close>. \<open>None\<close> for the provider itself
  stands for an interface that is absent or has no \<open>requestIntelligence\<close> function.
\<close>

datatype request =
    NextTaskSelection string int string
  | TaskGeneration "config option" hta analysis string string

record response =
  r_text :: string
  r_selected_task :: "node option"
  r_tasks :: "node list option"
  r_data_tasks :: "node list option"

type_synonym provider = "request \<Rightarrow> string + response option"

text \<open>
  The placeholder of \<open>getNextTask\<close>. Its text opens with the hourglass pictograph
  (U+23F3) and has an en dash (U+2013); both are written as their UTF-8 bytes.
\<close>

definition placeholder :: response where
  "placeholder =
     \<lparr> r_text = [CHR 0xE2, CHR 0x8F, CHR 0xB3] @ '' Claude unavailable ''
                @ [CHR 0xE2, CHR 0x80, CHR 0x93] @ '' no intelligent task yet.'',
       r_selected_task = None, r_tasks = None, r_data_tasks = None \<rparr>"

definition getNextTask :: "provider option \<Rightarrow> string \<Rightarrow> int \<Rightarrow> string \<Rightarrow> response option" where
  "getNextTask claude contextFromMemory energyLevel timeAvailable =
     (case claude of
        Some requestIntelligence \<Rightarrow>
          (case requestIntelligence (NextTaskSelection contextFromMemory energyLevel timeAvailable) of
             Inr answer \<Rightarrow> answer
           | Inl err \<Rightarrow> Some placeholder)
      | None \<Rightarrow> Some placeholder)"

definition emptyHTA :: hta where
  "emptyHTA = \<lparr> frontierNodes = None, frontier_nodes = None,
                 lastUpdated = None, last_evolution = None \<rparr>"

text \<open>The loaders of the task-intelligence module.\<close>

definition ti_loadPathHTA :: "store \<Rightarrow> string \<Rightarrow> string \<Rightarrow> hta option" where
  "ti_loadPathHTA st projectId pathName =
     (if pathName = ''general''
      then (case pathHTA st (projectId, pathName) of
              Some pathDoc \<Rightarrow> Some pathDoc
            | None \<Rightarrow> projectHTA st projectId)
      else pathHTA st (projectId, pathName))"

definition savePathHTA :: "string \<Rightarrow> string \<Rightarrow> hta \<Rightarrow> store \<Rightarrow> store" where
  "savePathHTA projectId pathName htaData st =
     (if pathName = ''general''
      then st\<lparr>projectHTA := (projectHTA st)(projectId \<mapsto> htaData)\<rparr>
      else st\<lparr>pathHTA := (pathHTA st)((projectId, pathName) \<mapsto> htaData)\<rparr>)"

definition loadLearningHistory :: "store \<Rightarrow> string \<Rightarrow> string \<Rightarrow> history option" where
  "loadLearningHistory st projectId pathName =
     (if pathName = ''general'' then projectHistory st projectId
      else pathHistory st (projectId, pathName))"

definition msPerDay :: int where
  "msPerDay = 1000 * 60 * 60 * 24"

text \<open>
  \<open>(Date.now() - new Date(t.completedAt)) / msPerDay <= 7\<close>; a missing or malformed
  date gives \<open>NaN\<close>, which compares false.
\<close>

definition isRecent :: "int \<Rightarrow> completedTopic \<Rightarrow> bool" where
  "isRecent nowMs t =
     (case ct_completedAt t of
        None \<Rightarrow> False
      | Some completedMs \<Rightarrow> (of_int (nowMs - completedMs) :: rat) / of_int msPerDay \<le> 7)"

definition detectStuckIndicators :: "hta \<Rightarrow> history option \<Rightarrow> int \<Rightarrow> string list" where
  "detectStuckIndicators htaData learningHistory nowMs =
     (let indicators = [];
          indicators = (if getAvailableTasksCount htaData = 0
                        then indicators @ [''no_available_tasks''] else indicators);
          recentCompletions =
            (case learningHistory of
               None \<Rightarrow> []
             | Some h \<Rightarrow> filter (isRecent nowMs) (completedTopics h));
          indicators = (if length recentCompletions = 0
                        then indicators @ [''no_recent_progress''] else indicators);
          avgEngagement =
            (of_int (foldl (\<lambda>sum c. sum + orNum (ct_energyAfter c) 3) 0 recentCompletions) :: rat)
            / of_nat (max (length recentCompletions) 1);
          indicators = (if avgEngagement < 5 / 2
                        then indicators @ [''low_engagement''] else indicators)
      in indicators)"

definition analyzeFeedback :: "string \<Rightarrow> feedbackAnalysis" where
  "analyzeFeedback feedback =
     (if feedback = []
      then \<lparr> fa_sentiment = ''neutral'', fa_keywords = [], fa_original = None \<rparr>
      else
        (let feedbackLower = toLowerCase feedback;
             sentiment =
               (if str_includes feedbackLower ''boring'' \<or>
                   str_includes feedbackLower ''stuck'' \<or>
                   str_includes feedbackLower ''difficult''
                then ''negative''
                else if str_includes feedbackLower ''great'' \<or>
                        str_includes feedbackLower ''interesting'' \<or>
                        str_includes feedbackLower ''progress''
                then ''positive''
                else ''neutral'');
             keywords = filter (\<lambda>word. length word > 3) (str_split CHR '' '' feedback)
         in \<lparr> fa_sentiment = sentiment, fa_keywords = keywords,
              fa_original = Some feedback \<rparr>))"

definition determineEvolutionStrategy :: "analysis \<Rightarrow> string" where
  "determineEvolutionStrategy an =
     (if ''no_available_tasks'' \<in> set (a_stuckIndicators an) then ''generate_new_tasks''
      else if ''low_engagement'' \<in> set (a_stuckIndicators an)
      then ''increase_variety_and_interest''
      else if fa_sentiment (a_userFeedback an) = ''negative'' then ''address_user_concerns''
      else if a_availableTasks an < 3 then ''expand_task_frontier''
      else ''optimize_existing_sequence'')"

definition analyzeCurrentStrategy :: "store \<Rightarrow> clock \<Rightarrow> string \<Rightarrow> string \<Rightarrow> string \<Rightarrow> analysis" where
  "analyzeCurrentStrategy st clk projectId pathName feedback =
     (let htaData = (case ti_loadPathHTA st projectId pathName of
                       None \<Rightarrow> emptyHTA | Some h \<Rightarrow> h);
          learningHistory = loadLearningHistory st projectId pathName;
          an = \<lparr> a_completedTasks = length (filter n_completed (orNodes (frontier_nodes htaData))),
                 a_totalTasks = length (orNodes (frontier_nodes htaData)),
                 a_availableTasks = getAvailableTasksCount htaData,
                 a_stuckIndicators = detectStuckIndicators htaData learningHistory (now clk),
                 a_userFeedback = analyzeFeedback feedback,
                 a_recommendedEvolution = None \<rparr>
      in an\<lparr>a_recommendedEvolution := Some (determineEvolutionStrategy an)\<rparr>)"

definition fallbackTasks :: "int \<Rightarrow> node list" where
  "fallbackTasks nowMs =
     [\<lparr> n_id = ''explore_fallback_'' @ showInt nowMs,
        n_title = ''Explore: New Possibility'',
        n_description = Some ''Discover new aspects of your learning domain'',
        n_branch = Some ''exploration'', n_difficulty = Some 1,
        n_duration = Some ''20 minutes'', n_prerequisites = None,
        n_learningOutcome = None, n_priority = Some 230, n_completed = False,
        n_opportunityType = None, n_generated = True, n_sourceBlock = None,
        n_completedAt = None, n_actualDifficulty = None, n_actualDuration = None \<rparr>,
      \<lparr> n_id = ''practice_fallback_'' @ showInt (nowMs + 1),
        n_title = ''Practice: Core Skill'',
        n_description = Some ''Reinforce fundamental skills'',
        n_branch = Some ''practice'', n_difficulty = Some 3,
        n_duration = Some ''30 minutes'', n_prerequisites = None,
        n_learningOutcome = None, n_priority = Some 220, n_completed = False,
        n_opportunityType = None, n_generated = True, n_sourceBlock = None,
        n_completedAt = None, n_actualDifficulty = None, n_actualDuration = None \<rparr>]"

definition generateSmartNextTasks ::
    "provider option \<Rightarrow> store \<Rightarrow> clock \<Rightarrow> string \<Rightarrow> string \<Rightarrow> analysis \<Rightarrow> node list" where
  "generateSmartNextTasks claude st clk projectId pathName an =
     (let cfg = configs st projectId;
          htaData = (case ti_loadPathHTA st projectId pathName of
                       None \<Rightarrow> emptyHTA | Some h \<Rightarrow> h)
      in case claude of
           None \<Rightarrow> fallbackTasks (now clk)
         | Some requestIntelligence \<Rightarrow>
             (case requestIntelligence (TaskGeneration cfg htaData an projectId pathName) of
                Inl err \<Rightarrow> fallbackTasks (now clk)
              | Inr None \<Rightarrow> fallbackTasks (now clk)
              | Inr (Some resp) \<Rightarrow>
                  (case r_tasks resp of
                     Some ts \<Rightarrow> ts
                   | None \<Rightarrow>
                       (case r_data_tasks resp of
                          Some ts \<Rightarrow> ts
                        | None \<Rightarrow> fallbackTasks (now clk)))))"

record evolveResult =
  strategy_analysis :: analysis
  new_tasks :: "node list"
  feedback_processed :: string

text \<open>
  \<open>evolveStrategy\<close>. The result is the error text of the \<open>catch\<close> branch or the structured
  part of the answer; the rendered report is not modelled.
\<close>

definition evolveStrategy ::
    "provider option \<Rightarrow> clock \<Rightarrow> string \<Rightarrow> store \<Rightarrow> (string + evolveResult) \<times> store" where
  "evolveStrategy claude clk feedback st =
     (case requireActiveProject st of
        Inl msg \<Rightarrow> (Inl (''Error evolving strategy: '' @ msg), logError ''evolveStrategy'' msg st)
      | Inr projectId \<Rightarrow>
          (case configs st projectId of
             None \<Rightarrow> (Inl (''Error evolving strategy: Project configuration not found''),
                       logError ''evolveStrategy'' ''Project configuration not found'' st)
           | Some cfg \<Rightarrow>
               (let path = orStr (activePath cfg) ''general'';
                    an = analyzeCurrentStrategy st clk projectId path feedback;
                    newTasks = generateSmartNextTasks claude st clk projectId path an;
                    st' = (if length newTasks > 0
                           then (let htaData = (case ti_loadPathHTA st projectId path of
                                                  None \<Rightarrow> emptyHTA | Some h \<Rightarrow> h);
                                     htaData = htaData\<lparr>frontier_nodes :=
                                        Some (orNodes (frontier_nodes htaData) @ newTasks)\<rparr>;
                                     htaData = htaData\<lparr>last_evolution := Some (now clk)\<rparr>
                                 in savePathHTA projectId path htaData st)
                           else st)
                in (Inr \<lparr> strategy_analysis = an, new_tasks = newTasks,
                          feedback_processed = orStr (Some feedback) ''none'' \<rparr>, st'))))"

text \<open>Concrete states used to run the task-intelligence operations.\<close>

definition demoTopic :: "int \<Rightarrow> completedTopic" where
  "demoTopic energy =
     \<lparr> ct_topic = ''Warm-up'', ct_description = [], ct_completedAt = Some 0,
       ct_outcome = Some ''done'', ct_learned = Some [], ct_difficulty = Some 3,
       ct_energyAfter = Some energy, ct_breakthrough = False, ct_blockId = ''task_1'',
       ct_taskId = None \<rparr>"

definition demoHTA :: hta where
  "demoHTA = emptyHTA\<lparr>frontier_nodes :=
     Some [mkNode ''a'' ''Alpha'' None False, mkNode ''b'' ''Beta'' None False,
           mkNode ''c'' ''Gamma'' None False]\<rparr>"

definition demoStore :: "int \<Rightarrow> store" where
  "demoStore energy =
     \<lparr> activeProject = Some ''p1'',
       configs = [''p1'' \<mapsto> \<lparr>activePath = None, life_structure_preferences = None\<rparr>],
       daySchedules = Map.empty,
       projectHTA = [''p1'' \<mapsto> demoHTA],
       pathHTA = Map.empty,
       projectHistory = [''p1'' \<mapsto>
          \<lparr> completedTopics = [demoTopic energy], insights = [], knowledgeGaps = [],
            skillProgression = Map.empty \<rparr>],
       pathHistory = Map.empty,
       errorLog = [] \<rparr>"

definition demoClock :: clock where
  "demoClock = \<lparr> now = 86400000, today = ''1970-01-02'' \<rparr>"

text \<open>Readers of the structured answer of \<open>evolveStrategy\<close>.\<close>

definition sentimentOf :: "string + evolveResult \<Rightarrow> string option" where
  "sentimentOf res =
     (case res of Inl msg \<Rightarrow> None
      | Inr r \<Rightarrow> Some (fa_sentiment (a_userFeedback (strategy_analysis r))))"

definition evolutionOf :: "string + evolveResult \<Rightarrow> string option" where
  "evolutionOf res =
     (case res of Inl msg \<Rightarrow> None
      | Inr r \<Rightarrow> a_recommendedEvolution (strategy_analysis r))"

definition availableOf :: "string + evolveResult \<Rightarrow> nat option" where
  "availableOf res =
     (case res of Inl msg \<Rightarrow> None
      | Inr r \<Rightarrow> Some (a_availableTasks (strategy_analysis r)))"

section \<open>Schedule generator\<close>

datatype error = ReferenceError string | Error string

definition errorMessage :: "error \<Rightarrow> string" where
  "errorMessage e = (case e of ReferenceError m \<Rightarrow> m | Error m \<Rightarrow> m)"

datatype jsnum = NaN | Num int

text \<open>
  \<open>Number(s)\<close> on the pieces of a time text: the empty string is 0, a run of decimal
  digits is its value, and everything else is read as \<open>NaN\<close>. (JavaScript also accepts
  signs, fractions, exponents and blanks around a numeral; time texts of that shape are
  outside the model.)
\<close>

definition toNumber :: "string \<Rightarrow> jsnum" where
  "toNumber s = (if s = [] then Num 0
                 else if list_all isDigit s then Num (parseIntDigits s) else NaN)"

text \<open>
  \<open>parseTime\<close>: \<open>[time, period] = timeStr.split(" ")\<close> and
  \<open>[hours, minutes] = time.split(":").map(Number)\<close>; a missing piece is \<open>undefined\<close>,
  and \<open>minutes || 0\<close> replaces \<open>undefined\<close>, \<open>NaN\<close> and 0 by 0.
\<close>

definition parseTime :: "string \<Rightarrow> jsnum" where
  "parseTime timeStr =
     (if timeStr = [] then Num 420
      else
        (let pieces = str_split CHR '' '' timeStr;
             time = hd pieces;
             period = (if length pieces > 1 then Some (toUpperCase (pieces ! 1)) else None);
             numbers = map toNumber (str_split CHR '':'' time);
             hours = hd numbers;
             minutes = (if length numbers > 1
                        then (case numbers ! 1 of NaN \<Rightarrow> 0 | Num m \<Rightarrow> m) else 0)
         in case hours of
              NaN \<Rightarrow> NaN
            | Num h \<Rightarrow>
                (let totalMinutes = h * 60 + minutes
                 in if period = Some ''PM'' \<and> h \<noteq> 12 then Num (totalMinutes + 12 * 60)
                    else if period = Some ''AM'' \<and> h = 12 then Num minutes
                    else Num totalMinutes)))"

definition parseMealTimes :: "string list \<Rightarrow> jsnum list" where
  "parseMealTimes mealTimes = map parseTime mealTimes"

text \<open>The remainder \<open>a % b\<close> of JavaScript takes the sign of \<open>a\<close>.\<close>

definition jsRem :: "int \<Rightarrow> int \<Rightarrow> int" where
  "jsRem a b = (if a < 0 then - ((- a) mod \<bar>b\<bar>) else a mod \<bar>b\<bar>)"

definition padStart2 :: "string \<Rightarrow> string" where
  "padStart2 s = replicate (2 - length s) CHR ''0'' @ s"

definition formatTime :: "int \<Rightarrow> string" where
  "formatTime minutes =
     (let hours = minutes div 60;
          mins = jsRem minutes 60;
          period = (if hours \<ge> 12 then ''PM'' else ''AM'');
          displayHours = (if hours > 12 then hours - 12 else if hours = 0 then 12 else hours)
      in showInt displayHours @ '':'' @ padStart2 (showInt mins) @ '' '' @ period)"

definition isMealTime :: "int \<Rightarrow> jsnum list \<Rightarrow> bool" where
  "isMealTime currentTime mealTimes =
     list_ex (\<lambda>mealTime. case mealTime of NaN \<Rightarrow> False
                          | Num m \<Rightarrow> \<bar>currentTime - m\<bar> \<le> 15) mealTimes"

definition getMealType :: "int \<Rightarrow> jsnum list \<Rightarrow> string" where
  "getMealType currentTime mealTimes =
     (let hour = currentTime div 60
      in if hour \<le> 10 then ''Breakfast''
         else if hour \<le> 14 then ''Lunch''
         else if hour \<le> 16 then ''Snack''
         else ''Dinner'')"

definition getBreakDuration :: "preferences \<Rightarrow> int" where
  "getBreakDuration prefs =
     (let breakPref = orStr (break_preferences prefs) ''every hour''
      in if str_includes breakPref ''15'' then 15
         else if str_includes breakPref ''10'' then 10
         else if str_includes breakPref ''5'' then 5
         else 15)"

definition generateHabitBlock :: "int \<Rightarrow> string \<times> int" where
  "generateHabitBlock currentTime =
     (let hour = currentTime div 60
      in if hour \<le> 9 then (''Morning Routine'', 30)
         else if hour \<ge> 19 then (''Evening Wind-down'', 45)
         else (''Mindful Transition'', 15))"

text \<open>
  \<open>selectTaskForTimeSlot\<close>. The first branch is for an empty pool, which
  \<open>createTimeBlocks\<close> excludes before the call; its task carries the number 30 as
  duration, left absent here.
\<close>

definition selectTaskForTimeSlot :: "node list \<Rightarrow> int \<Rightarrow> int \<Rightarrow> string \<Rightarrow> node" where
  "selectTaskForTimeSlot readyTasks currentTime energyLevel focusType =
     (if length readyTasks = 0
      then \<lparr> n_id = ''explore_general'', n_title = ''Explore: General Learning'',
             n_description = Some ''Explore general learning opportunities'',
             n_branch = None, n_difficulty = Some 1, n_duration = None,
             n_prerequisites = None, n_learningOutcome = None, n_priority = None,
             n_completed = False, n_opportunityType = None, n_generated = False,
             n_sourceBlock = None, n_completedAt = None, n_actualDifficulty = None,
             n_actualDuration = None \<rparr>
      else
        (let hour = currentTime div 60;
             isHighEnergyTime = (hour \<ge> 9 \<and> hour \<le> 11);
             suitableTasks = filter (\<lambda>task.
               (let taskDifficulty = orNum (n_difficulty task) 1
                in if energyLevel \<ge> 4 \<and> isHighEnergyTime then taskDifficulty \<ge> 2
                   else if energyLevel \<le> 2 then taskDifficulty \<le> 2
                   else taskDifficulty \<le> 3)) readyTasks;
             suitableTasks = (if length suitableTasks = 0 then readyTasks else suitableTasks)
         in hd suitableTasks))"

text \<open>
  The product \<open>baseDuration * 0.7\<close> in double precision. The constant \<open>0.7\<close> is the double
  \<open>3152519739159347 / 2^52\<close>; the exact product of it and a non-negative integer is rounded
  to 53 significant bits, ties to even. (\<open>baseDuration * 1.5\<close> and \<open>* 1.0\<close> are exact.)
\<close>

definition timesDouble07 :: "int \<Rightarrow> rat" where
  "timesDouble07 base =
     (let n = base * 3152519739159347;
          len = bitlen n
      in if len \<le> 53 then of_int n / 2 ^ 52
         else
           (let shift = nat (len - 53);
                q = n div 2 ^ shift;
                r = n mod 2 ^ shift;
                half = 2 ^ (shift - 1);
                q = (if r > half \<or> (r = half \<and> odd q) then q + 1 else q)
            in of_int (q * 2 ^ shift) / 2 ^ 52))"

text \<open>\<open>Math.round\<close> is \<open>round\<close>: the nearest integer, a half going up.\<close>

definition calculateTaskDuration :: "node \<Rightarrow> preferences \<Rightarrow> int \<Rightarrow> int" where
  "calculateTaskDuration task prefs energyLevel =
     (let baseDuration = parseDuration (orStr (n_duration task) ''30 minutes'');
          focusDuration = orStr (focus_duration prefs) ''flexible''
      in if str_includes focusDuration ''25'' then 25
         else if str_includes focusDuration ''1 hour'' then 60
         else if str_includes focusDuration ''2 hour'' then min 120 (baseDuration * 2)
         else
           (let scaled = (if energyLevel \<ge> 4 then of_int baseDuration * (3 / 2)
                          else if energyLevel \<le> 2 then timesDouble07 baseDuration
                          else of_int baseDuration)
            in max 15 (min 120 (round scaled))))"

text \<open>A fresh block: nothing of the completion is filled in yet.\<close>

definition newBlock ::
    "string \<Rightarrow> string \<Rightarrow> string \<Rightarrow> int \<Rightarrow> int \<Rightarrow> blockPriority \<Rightarrow> block" where
  "newBlock bid btype btitle start dur prio =
     \<lparr> b_id = bid, b_type = btype, b_title = btitle, b_description = None,
       b_startTime = formatTime start, b_startMinutes = start, b_duration = dur,
       b_difficulty = None, b_taskId = None, b_branch = None, b_completed = False,
       b_priority = prio, b_completedAt = None, b_outcome = None, b_learned = None,
       b_nextQuestions = None, b_energyAfter = None, b_difficultyRating = None,
       b_breakthrough = False, b_opportunityContext = None \<rparr>"

text \<open>The variables of the loop in \<open>createTimeBlocks\<close>.\<close>

record packState =
  ps_blocks :: "block list"
  ps_currentTime :: int
  ps_blockId :: nat
  ps_readyTasks :: "node list"

text \<open>
  One pass through the body of the loop. \<open>priorityHours\<close> is a free identifier of
  \<open>createTimeBlocks\<close>: the method has no parameter or local variable of that name (the
  variable so named is local to \<open>generateComprehensiveSchedule\<close>), so the name is looked
  up in the global scope. The first argument of \<open>loopBody\<close> is the global binding,
  \<open>None\<close> when there is none; nothing in the repository creates one. The body reads the
  identifier in its second statement, before the meal test. The three branches of the
  body come first.
\<close>

definition mealBranch :: "jsnum list \<Rightarrow> packState \<Rightarrow> packState" where
  "mealBranch mealTimes st =
     st\<lparr> ps_blocks := ps_blocks st @
            [newBlock (''meal_'' @ showNat (ps_blockId st)) ''meal''
               (getMealType (ps_currentTime st) mealTimes) (ps_currentTime st) 45
               (Label ''high'')],
          ps_blockId := ps_blockId st + 1,
          ps_currentTime := ps_currentTime st + 45 \<rparr>"

definition learningBlock :: "node \<Rightarrow> nat \<Rightarrow> int \<Rightarrow> int \<Rightarrow> block" where
  "learningBlock task blockId start duration =
     (newBlock (''task_'' @ showNat blockId) ''learning'' (n_title task) start duration
        (Number (orNum (n_priority task) 200)))
     \<lparr> b_description := n_description task, b_difficulty := n_difficulty task,
       b_taskId := Some (n_id task), b_branch := n_branch task \<rparr>"

definition breakBranch :: "preferences \<Rightarrow> packState \<Rightarrow> packState" where
  "breakBranch prefs st =
     st\<lparr> ps_blocks := ps_blocks st @
            [newBlock (''break_'' @ showNat (ps_blockId st)) ''break'' ''Break & Reflection''
               (ps_currentTime st) (getBreakDuration prefs) (Label ''medium'')],
          ps_blockId := ps_blockId st + 1,
          ps_currentTime := ps_currentTime st + getBreakDuration prefs \<rparr>"

definition learningBranch ::
    "int \<Rightarrow> string \<Rightarrow> preferences \<Rightarrow> int \<Rightarrow> packState \<Rightarrow> packState" where
  "learningBranch energyLevel focusType prefs endTime st =
     (let task = selectTaskForTimeSlot (ps_readyTasks st) (ps_currentTime st)
                   energyLevel focusType;
          duration = calculateTaskDuration task prefs energyLevel;
          st1 = st\<lparr> ps_blocks := ps_blocks st @
                       [learningBlock task (ps_blockId st) (ps_currentTime st) duration],
                     ps_blockId := ps_blockId st + 1,
                     ps_readyTasks := remove1 task (ps_readyTasks st),
                     ps_currentTime := ps_currentTime st + duration \<rparr>
      in if ps_currentTime st1 < endTime - 30 then breakBranch prefs st1 else st1)"

definition habitBranch :: "packState \<Rightarrow> packState" where
  "habitBranch st =
     (let habitBlock = generateHabitBlock (ps_currentTime st)
      in st\<lparr> ps_blocks := ps_blocks st @
               [newBlock (''habit_'' @ showNat (ps_blockId st)) ''habit'' (fst habitBlock)
                  (ps_currentTime st) (snd habitBlock) (Label ''low'')],
             ps_blockId := ps_blockId st + 1,
             ps_currentTime := ps_currentTime st + snd habitBlock \<rparr>)"

definition loopBody ::
    "int list option \<Rightarrow> jsnum list \<Rightarrow> int \<Rightarrow> string \<Rightarrow> preferences \<Rightarrow> int \<Rightarrow>
     packState \<Rightarrow> error + packState" where
  "loopBody priorityHours mealTimes energyLevel focusType prefs endTime st =
     (let currentTime = ps_currentTime st;
          hour = currentTime div 60
      in case priorityHours of
           None \<Rightarrow> Inl (ReferenceError ''priorityHours is not defined'')
         | Some hours \<Rightarrow>
             (let isAvailableHour = (length hours = 0 \<or> hour \<in> set hours)
              in if isMealTime currentTime mealTimes then Inr (mealBranch mealTimes st)
                 else if isAvailableHour \<and> length (ps_readyTasks st) > 0
                 then Inr (learningBranch energyLevel focusType prefs endTime st)
                 else Inr (habitBranch st)))"

lemma length_mealBranch: "length (ps_blocks (mealBranch mealTimes st)) = length (ps_blocks st) + 1"
  by (simp add: mealBranch_def)

lemma length_habitBranch: "length (ps_blocks (habitBranch st)) = length (ps_blocks st) + 1"
  by (simp add: habitBranch_def Let_def)

lemma length_breakBranch: "length (ps_blocks (breakBranch prefs st)) = length (ps_blocks st) + 1"
  by (simp add: breakBranch_def)

lemma length_learningBranch:
  "length (ps_blocks (learningBranch energyLevel focusType prefs endTime st))
     \<in> {length (ps_blocks st) + 1, length (ps_blocks st) + 2}"
  by (simp add: learningBranch_def Let_def length_breakBranch)

lemma loopBody_grows:
  assumes "loopBody priorityHours mealTimes energyLevel focusType prefs endTime st = Inr st'"
  shows "length (ps_blocks st) < length (ps_blocks st')"
    and "length (ps_blocks st') \<le> length (ps_blocks st) + 2"
proof -
  obtain hours where hours: "priorityHours = Some hours"
    using assms by (cases priorityHours) (simp_all add: loopBody_def)
  have "st' = mealBranch mealTimes st \<or>
        st' = learningBranch energyLevel focusType prefs endTime st \<or>
        st' = habitBranch st"
    using assms unfolding loopBody_def Let_def hours
    by (simp split: if_splits)
  then show "length (ps_blocks st) < length (ps_blocks st')"
    and "length (ps_blocks st') \<le> length (ps_blocks st) + 2"
    using length_learningBranch [of energyLevel focusType prefs endTime st]
    by (auto simp: length_mealBranch length_habitBranch)
qed

text \<open>
  The loop: \<open>while (currentTime < endTime) { body; if (blocks.length > 50) break; }\<close>.
  Every pass appends a block, so at most 51 passes are made.
\<close>

function timeBlockLoop ::
    "int list option \<Rightarrow> jsnum list \<Rightarrow> int \<Rightarrow> string \<Rightarrow> preferences \<Rightarrow> int \<Rightarrow>
     packState \<Rightarrow> error + packState" where
  "timeBlockLoop priorityHours mealTimes energyLevel focusType prefs endTime st =
     (if ps_currentTime st < endTime
      then (case loopBody priorityHours mealTimes energyLevel focusType prefs endTime st of
              Inl err \<Rightarrow> Inl err
            | Inr st' \<Rightarrow>
                if length (ps_blocks st') > 50 then Inr st'
                else timeBlockLoop priorityHours mealTimes energyLevel focusType prefs endTime st')
      else Inr st)"
  by pat_completeness auto
termination
proof (relation "measure (\<lambda>(priorityHours, mealTimes, energyLevel, focusType, prefs, endTime, st).
                   51 - length (ps_blocks st))", goal_cases)
  case 1
  show ?case by simp
next
  case (2 priorityHours mealTimes energyLevel focusType prefs endTime st st')
  have "length (ps_blocks st) < length (ps_blocks st')"
    using loopBody_grows(1) [OF 2(2)] .
  with 2(3) show ?case by simp
qed

declare timeBlockLoop.simps [simp del]

text \<open>A comparison with \<open>NaN\<close> is false, so the loop is not entered for such a bound.\<close>

definition createTimeBlocks ::
    "int list option \<Rightarrow> jsnum \<Rightarrow> jsnum \<Rightarrow> jsnum list \<Rightarrow> node list \<Rightarrow> int \<Rightarrow> string \<Rightarrow>
     preferences \<Rightarrow> error + block list" where
  "createTimeBlocks priorityHours wakeTime sleepTime mealTimes readyTasks energyLevel
       focusType prefs =
     (case (wakeTime, sleepTime) of
        (Num wake, Num endTime) \<Rightarrow>
          (case timeBlockLoop priorityHours mealTimes energyLevel focusType prefs endTime
                  \<lparr> ps_blocks = [], ps_currentTime = wake, ps_blockId = 1,
                    ps_readyTasks = readyTasks \<rparr> of
             Inl err \<Rightarrow> Inl err
           | Inr st \<Rightarrow> Inr (ps_blocks st))
      | _ \<Rightarrow> Inr [])"

text \<open>The loaders of the schedule generator.\<close>

definition sg_loadPathHTA :: "store \<Rightarrow> string \<Rightarrow> string \<Rightarrow> hta" where
  "sg_loadPathHTA st projectId pathName =
     (case (if pathName = ''general'' then projectHTA st projectId
            else pathHTA st (projectId, pathName)) of
        None \<Rightarrow> emptyHTA
      | Some h \<Rightarrow> h)"

definition emptyPreferences :: preferences where
  "emptyPreferences = \<lparr> wake_time = None, sleep_time = None, meal_times = None,
                         focus_duration = None, break_preferences = None \<rparr>"

text \<open>
  The \<open>availableHours\<close> argument. \<open>generateComprehensiveSchedule\<close> turns it into its local
  \<open>priorityHours\<close>, which it then neither uses nor passes on; that computation cannot
  throw and is left out.
\<close>

datatype hoursArg = NoHours | HourNumber int | HourList "string list" | HourText string

definition generateComprehensiveSchedule ::
    "int list option \<Rightarrow> store \<Rightarrow> clock \<Rightarrow> config \<Rightarrow> string \<Rightarrow> string \<Rightarrow> int \<Rightarrow>
     hoursArg \<Rightarrow> string \<Rightarrow> string \<Rightarrow> error + schedule" where
  "generateComprehensiveSchedule priorityHours st clk cfg projectId date energyLevel
       availableHours focusType context =
     (let prefs = (case life_structure_preferences cfg of
                     None \<Rightarrow> emptyPreferences | Some p \<Rightarrow> p);
          wakeTime = parseTime (orStr (wake_time prefs) ''7:00 AM'');
          sleepTime = parseTime (orStr (sleep_time prefs) ''10:00 PM'');
          mealTimes = parseMealTimes
            (case meal_times prefs of
               None \<Rightarrow> [''8:00 AM'', ''12:00 PM'', ''6:00 PM'']
             | Some ms \<Rightarrow> ms);
          htaData = sg_loadPathHTA st projectId (orStr (activePath cfg) ''general'');
          readyTasks = getReadyTasks htaData
      in case createTimeBlocks priorityHours wakeTime sleepTime mealTimes readyTasks
                energyLevel focusType prefs of
           Inl err \<Rightarrow> Inl err
         | Inr blocks \<Rightarrow>
             Inr \<lparr> s_date = date, s_projectId = projectId,
                   s_activePath = orStr (activePath cfg) ''general'',
                   s_energyLevel = energyLevel, s_focusType = focusType,
                   s_context = context, s_preferences = prefs,
                   s_blocks = Some blocks, s_generated = now clk \<rparr>)"

text \<open>
  \<open>generateDailySchedule\<close>: the answer is the error text of the \<open>catch\<close> branch or the
  schedule that was saved under the target date.
\<close>

definition generateDailySchedule ::
    "int list option \<Rightarrow> clock \<Rightarrow> string option \<Rightarrow> int \<Rightarrow> hoursArg \<Rightarrow> string \<Rightarrow> string \<Rightarrow>
     store \<Rightarrow> (string + schedule) \<times> store" where
  "generateDailySchedule priorityHours clk dateStr energyLevel availableHours focusType
       context st =
     (case requireActiveProject st of
        Inl msg \<Rightarrow> (Inl (''Error generating schedule: '' @ msg),
                    logError ''generateDailySchedule'' msg st)
      | Inr projectId \<Rightarrow>
          (case configs st projectId of
             None \<Rightarrow> (Inl ''Error generating schedule: Project configuration not found'',
                       logError ''generateDailySchedule'' ''Project configuration not found'' st)
           | Some cfg \<Rightarrow>
               (let targetDate = orStr dateStr (today clk)
                in case generateComprehensiveSchedule priorityHours st clk cfg projectId
                          targetDate energyLevel availableHours focusType context of
                     Inl err \<Rightarrow> (Inl (''Error generating schedule: '' @ errorMessage err),
                                 logError ''generateDailySchedule'' (errorMessage err) st)
                   | Inr sched \<Rightarrow>
                       (Inr sched,
                        st\<lparr>daySchedules :=
                             (daySchedules st)((projectId, targetDate) \<mapsto> sched)\<rparr>))))"

text \<open>The task of the scenario of C5: difficulty 2, 30 minutes, priority 200.\<close>

definition scenarioTask :: node where
  "scenarioTask =
     \<lparr> n_id = ''t1'', n_title = ''Practice scales'', n_description = Some ''daily practice'',
       n_branch = Some ''basics'', n_difficulty = Some 2, n_duration = Some ''30 minutes'',
       n_prerequisites = None, n_learningOutcome = None, n_priority = Some 200,
       n_completed = False, n_opportunityType = None, n_generated = False,
       n_sourceBlock = None, n_completedAt = None, n_actualDifficulty = None,
       n_actualDuration = None \<rparr>"

text \<open>What a statement about a day's blocks looks at: type, start, duration, task.\<close>

definition blockSummary :: "block \<Rightarrow> string \<times> int \<times> int \<times> string option" where
  "blockSummary b = (b_type b, b_startMinutes b, b_duration b, b_taskId b)"

text \<open>Two blocks overlap when each starts before the other ends.\<close>

definition overlapping :: "block \<Rightarrow> block \<Rightarrow> bool" where
  "overlapping a b =
     (b_startMinutes a < b_startMinutes b + b_duration b \<and>
      b_startMinutes b < b_startMinutes a + b_duration a)"

definition noOverlap :: "block list \<Rightarrow> bool" where
  "noOverlap bs = (\<forall>i j. i < j \<and> j < length bs \<longrightarrow> \<not> overlapping (bs ! i) (bs ! j))"

text \<open>A project whose configuration has no preferences, and no task graph.\<close>

definition plainStore :: store where
  "plainStore =
     \<lparr> activeProject = Some ''p1'',
       configs = [''p1'' \<mapsto> \<lparr>activePath = None, life_structure_preferences = None\<rparr>],
       daySchedules = Map.empty, projectHTA = Map.empty, pathHTA = Map.empty,
       projectHistory = Map.empty, pathHistory = Map.empty, errorLog = [] \<rparr>"

section \<open>Task completion\<close>

definition trim :: "string \<Rightarrow> string" where
  "trim s = rev (dropWhile isSpace (rev (dropWhile isSpace s)))"

text \<open>The loaders of the task-completion module.\<close>

definition tc_loadPathHTA :: "store \<Rightarrow> string \<Rightarrow> string \<Rightarrow> hta option" where
  "tc_loadPathHTA st projectId pathName =
     (if pathName = ''general'' then projectHTA st projectId
      else pathHTA st (projectId, pathName))"

definition loadPathLearningHistory :: "store \<Rightarrow> string \<Rightarrow> string \<Rightarrow> history option" where
  "loadPathLearningHistory st projectId pathName =
     (if pathName = ''general'' then projectHistory st projectId
      else pathHistory st (projectId, pathName))"

definition savePathLearningHistory :: "string \<Rightarrow> string \<Rightarrow> history \<Rightarrow> store \<Rightarrow> store" where
  "savePathLearningHistory projectId pathName h st =
     (if pathName = ''general''
      then st\<lparr>projectHistory := (projectHistory st)(projectId \<mapsto> h)\<rparr>
      else st\<lparr>pathHistory := (pathHistory st)((projectId, pathName) \<mapsto> h)\<rparr>)"

text \<open>\<open>text.split(".").filter(q => q.trim().length > 0)\<close>\<close>

definition questionsOf :: "string \<Rightarrow> string list" where
  "questionsOf nextQuestions =
     filter (\<lambda>q. length (trim q) > 0) (str_split CHR ''.'' nextQuestions)"

definition updateLearningHistory :: "string \<Rightarrow> string \<Rightarrow> block \<Rightarrow> store \<Rightarrow> store" where
  "updateLearningHistory projectId pathName blk st =
     (let h = (case loadPathLearningHistory st projectId pathName of
                 Some h \<Rightarrow> h
               | None \<Rightarrow> \<lparr> completedTopics = [], insights = [], knowledgeGaps = [],
                            skillProgression = Map.empty \<rparr>);
          h = h\<lparr>completedTopics := completedTopics h @
                 [\<lparr> ct_topic = b_title blk, ct_description = orStr (b_description blk) [],
                    ct_completedAt = b_completedAt blk, ct_outcome = b_outcome blk,
                    ct_learned = b_learned blk, ct_difficulty = b_difficultyRating blk,
                    ct_energyAfter = b_energyAfter blk, ct_breakthrough = b_breakthrough blk,
                    ct_blockId = b_id blk, ct_taskId = b_taskId blk \<rparr>]\<rparr>;
          h = (if b_breakthrough blk \<and> truthyStr (b_learned blk)
               then h\<lparr>insights := insights h @
                      [\<lparr> i_insight = orStr (b_learned blk) [], i_topic = b_title blk,
                         i_timestamp = b_completedAt blk, i_context = b_outcome blk \<rparr>]\<rparr>
               else h);
          h = (if truthyStr (b_nextQuestions blk)
               then h\<lparr>knowledgeGaps := knowledgeGaps h @
                      map (\<lambda>question.
                             \<lparr> kg_question = trim question, kg_relatedTopic = b_title blk,
                               kg_identified = b_completedAt blk,
                               kg_priority = (if b_breakthrough blk then ''high'' else ''medium'') \<rparr>)
                          (questionsOf (orStr (b_nextQuestions blk) []))\<rparr>
               else h);
          h = (if truthyStr (b_branch blk)
               then
                 (let br = orStr (b_branch blk) [];
                      progression = (case skillProgression h br of
                                       Some p \<Rightarrow> p
                                     | None \<Rightarrow> \<lparr> p_level = 1, p_completedTasks = 0,
                                                  p_totalEngagement = 0 \<rparr>);
                      progression = progression\<lparr>p_completedTasks :=
                                      p_completedTasks progression + 1\<rparr>;
                      progression = progression\<lparr>p_totalEngagement :=
                                      p_totalEngagement progression +
                                      orNum (map_option engagementLevel (b_opportunityContext blk)) 5\<rparr>;
                      progression = progression\<lparr>p_level :=
                                      min 10 (1 + p_completedTasks progression div 3)\<rparr>
                  in h\<lparr>skillProgression := (skillProgression h)(br \<mapsto> progression)\<rparr>)
               else h)
      in savePathLearningHistory projectId pathName h st)"

text \<open>\<open>[block.taskId].filter(Boolean)\<close>\<close>

definition taskIdList :: "block \<Rightarrow> string list" where
  "taskIdList blk = (if truthyStr (b_taskId blk) then [orStr (b_taskId blk) []] else [])"

definition followUpTask :: "block \<Rightarrow> nat \<Rightarrow> string \<Rightarrow> node" where
  "followUpTask blk taskId question =
     \<lparr> n_id = ''followup_'' @ showNat taskId,
       n_title = ''Explore: '' @ trim question,
       n_description = Some (''Investigation stemming from '' @ b_title blk),
       n_branch = Some (orStr (b_branch blk) ''exploration''),
       n_difficulty = Some (max 1 (orNum (b_difficultyRating blk) 3 - 1)),
       n_duration = Some ''20 minutes'',
       n_prerequisites = Some (taskIdList blk),
       n_learningOutcome = Some (''Understanding of '' @ trim question),
       n_priority = Some (if b_breakthrough blk then 250 else 200),
       n_completed = False, n_opportunityType = None, n_generated = True,
       n_sourceBlock = Some (b_id blk), n_completedAt = None,
       n_actualDifficulty = None, n_actualDuration = None \<rparr>"

definition generateFollowUpTasks :: "block \<Rightarrow> hta \<Rightarrow> node list" where
  "generateFollowUpTasks blk htaData =
     (let taskId = length (orNodes (frontierNodes htaData)) + 1000
      in if truthyStr (b_nextQuestions blk)
         then (let questions = take 2 (questionsOf (orStr (b_nextQuestions blk) []))
               in map (\<lambda>(k, question). followUpTask blk (taskId + k) question)
                      (zip [0 ..< length questions] questions))
         else [])"

definition amplifyTask :: "block \<Rightarrow> nat \<Rightarrow> node" where
  "amplifyTask blk taskId =
     \<lparr> n_id = ''breakthrough_'' @ showNat taskId,
       n_title = ''Amplify: '' @ b_title blk @ '' Success'',
       n_description = Some (''Build on the breakthrough momentum from '' @ b_title blk),
       n_branch = Some (orStr (b_branch blk) ''opportunity''),
       n_difficulty = Some (min 5 (orNum (b_difficultyRating blk) 3 + 1)),
       n_duration = Some ''45 minutes'',
       n_prerequisites = Some (taskIdList blk),
       n_learningOutcome = Some ''Amplified skills and deeper mastery'',
       n_priority = Some 350,
       n_completed = False, n_opportunityType = Some ''breakthrough_amplification'',
       n_generated = False, n_sourceBlock = None, n_completedAt = None,
       n_actualDifficulty = None, n_actualDuration = None \<rparr>"

definition networkTask :: "block \<Rightarrow> nat \<Rightarrow> node" where
  "networkTask blk taskId =
     \<lparr> n_id = ''network_'' @ showNat taskId,
       n_title = ''Follow Up: External Interest'',
       n_description = Some (''Connect with people who showed interest in your ''
                             @ b_title blk @ '' work''),
       n_branch = Some ''networking'', n_difficulty = Some 2,
       n_duration = Some ''30 minutes'', n_prerequisites = None,
       n_learningOutcome = Some ''Professional connections and feedback'',
       n_priority = Some 300,
       n_completed = False, n_opportunityType = Some ''networking'',
       n_generated = False, n_sourceBlock = None, n_completedAt = None,
       n_actualDifficulty = None, n_actualDuration = None \<rparr>"

definition viralTask :: "block \<Rightarrow> nat \<Rightarrow> node" where
  "viralTask blk taskId =
     \<lparr> n_id = ''viral_'' @ showNat taskId,
       n_title = ''Leverage: Viral Momentum'',
       n_description = Some (''Capitalize on the viral potential of your ''
                             @ b_title blk @ '' work''),
       n_branch = Some ''marketing'', n_difficulty = Some 3,
       n_duration = Some ''60 minutes'', n_prerequisites = None,
       n_learningOutcome = Some ''Understanding of viral content and audience building'',
       n_priority = Some 320,
       n_completed = False, n_opportunityType = Some ''viral_leverage'',
       n_generated = False, n_sourceBlock = None, n_completedAt = None,
       n_actualDifficulty = None, n_actualDuration = None \<rparr>"

definition hasPositive :: "opportunityContext \<Rightarrow> bool" where
  "hasPositive ctx =
     (length (externalFeedback ctx) > 0 \<and>
      length (filter (\<lambda>f. f_sentiment f = Some ''positive'') (externalFeedback ctx)) > 0)"

text \<open>\<open>generateOpportunityTasks\<close>, called only for a block that carries a context.\<close>

definition generateOpportunityTasks :: "block \<Rightarrow> opportunityContext \<Rightarrow> hta \<Rightarrow> node list" where
  "generateOpportunityTasks blk ctx htaData =
     (let taskId = length (orNodes (frontierNodes htaData)) + 2000;
          opportunityTasks = [];
          (opportunityTasks, taskId) =
            (if engagementLevel ctx \<ge> 8
             then (opportunityTasks @ [amplifyTask blk taskId], taskId + 1)
             else (opportunityTasks, taskId));
          (opportunityTasks, taskId) =
            (if hasPositive ctx
             then (opportunityTasks @ [networkTask blk taskId], taskId + 1)
             else (opportunityTasks, taskId));
          (opportunityTasks, taskId) =
            (if viralPotential ctx
             then (opportunityTasks @ [viralTask blk taskId], taskId + 1)
             else (opportunityTasks, taskId))
      in opportunityTasks)"

text \<open>\<open>nodes.find(n => n.id === taskId)\<close> followed by the update of the node found.\<close>

fun markCompleted :: "block \<Rightarrow> string \<Rightarrow> node list \<Rightarrow> node list" where
  "markCompleted blk taskId [] = []"
| "markCompleted blk taskId (n # ns) =
     (if n_id n = taskId
      then n\<lparr> n_completed := True, n_completedAt := b_completedAt blk,
               n_actualDifficulty := b_difficultyRating blk,
               n_actualDuration := Some (b_duration blk) \<rparr> # ns
      else n # markCompleted blk taskId ns)"

definition evolveHTABasedOnLearning :: "clock \<Rightarrow> string \<Rightarrow> string \<Rightarrow> block \<Rightarrow> store \<Rightarrow> store" where
  "evolveHTABasedOnLearning clk projectId pathName blk st =
     (case tc_loadPathHTA st projectId pathName of
        None \<Rightarrow> st
      | Some htaData \<Rightarrow>
          (let htaData =
                 (if truthyStr (b_taskId blk)
                  then htaData\<lparr>frontierNodes :=
                         map_option (markCompleted blk (orStr (b_taskId blk) []))
                                    (frontierNodes htaData)\<rparr>
                  else htaData);
               htaData =
                 (if truthyStr (b_nextQuestions blk) \<or> b_breakthrough blk
                  then (let newTasks = generateFollowUpTasks blk htaData
                        in if length newTasks > 0
                           then htaData\<lparr>frontierNodes :=
                                  Some (orNodes (frontierNodes htaData) @ newTasks)\<rparr>
                           else htaData)
                  else htaData);
               htaData =
                 (case b_opportunityContext blk of
                    None \<Rightarrow> htaData
                  | Some ctx \<Rightarrow>
                      (let opportunityTasks = generateOpportunityTasks blk ctx htaData
                       in if length opportunityTasks > 0
                          then htaData\<lparr>frontierNodes :=
                                 Some (orNodes (frontierNodes htaData) @ opportunityTasks)\<rparr>
                          else htaData));
               htaData = htaData\<lparr>lastUpdated := Some (now clk)\<rparr>
           in savePathHTA projectId pathName htaData st))"

record opportunityResponse =
  detected :: bool
  opportunities :: "string list"
  recommendedPath :: string

definition recommendOpportunityPath :: "string list \<Rightarrow> string" where
  "recommendOpportunityPath types =
     (if length types = 0 then ''continue_planned_path''
      else if ''viral_potential'' \<in> set types \<and> ''external_validation'' \<in> set types
      then ''accelerated_professional_path''
      else if ''natural_talent_indicator'' \<in> set types \<and>
              ''serendipitous_discovery'' \<in> set types
      then ''exploration_amplification_path''
      else if ''external_validation'' \<in> set types then ''networking_focus_path''
      else ''breakthrough_deepening_path'')"

text \<open>\<open>handleOpportunityDetection\<close>; an opportunity is kept as its type.\<close>

definition handleOpportunityDetection :: "block \<Rightarrow> opportunityResponse option" where
  "handleOpportunityDetection blk =
     (case b_opportunityContext blk of
        None \<Rightarrow> None
      | Some ctx \<Rightarrow>
          (let opps = (if engagementLevel ctx \<ge> 8 then [''natural_talent_indicator''] else [])
                    @ (if length (unexpectedResults ctx) > 0
                       then [''serendipitous_discovery''] else [])
                    @ (if hasPositive ctx then [''external_validation''] else [])
                    @ (if viralPotential ctx then [''viral_potential''] else [])
           in Some \<lparr> detected = (length opps > 0), opportunities = opps,
                     recommendedPath = recommendOpportunityPath opps \<rparr>))"

datatype nextAction = ContinueSchedule string | DayComplete

definition suggestNextAction :: "schedule \<Rightarrow> nextAction" where
  "suggestNextAction sched =
     (case filter (\<lambda>b. \<not> b_completed b) (case s_blocks sched of None \<Rightarrow> [] | Some bs \<Rightarrow> bs) of
        [] \<Rightarrow> DayComplete
      | nextBlock # _ \<Rightarrow> ContinueSchedule (b_id nextBlock))"

text \<open>The arguments of \<open>completeBlock\<close>, with the defaults of its parameter list.\<close>

record completion =
  c_blockId :: string
  c_outcome :: string
  c_learned :: string
  c_nextQuestions :: string
  c_energyLevel :: "int option"
  c_difficultyRating :: int
  c_breakthrough :: bool
  c_engagementLevel :: int
  c_unexpectedResults :: "string list"
  c_newSkillsRevealed :: "string list"
  c_externalFeedback :: "feedbackItem list"
  c_socialReactions :: "string list"
  c_viralPotential :: bool
  c_industryConnections :: "string list"
  c_serendipitousEvents :: "string list"

definition defaultCompletion :: "string \<Rightarrow> string \<Rightarrow> completion" where
  "defaultCompletion blockId outcome =
     \<lparr> c_blockId = blockId, c_outcome = outcome, c_learned = [], c_nextQuestions = [],
       c_energyLevel = None, c_difficultyRating = 3, c_breakthrough = False,
       c_engagementLevel = 5, c_unexpectedResults = [], c_newSkillsRevealed = [],
       c_externalFeedback = [], c_socialReactions = [], c_viralPotential = False,
       c_industryConnections = [], c_serendipitousEvents = [] \<rparr>"

text \<open>The block as \<open>completeBlock\<close> leaves it before it saves the schedule.\<close>

definition completedBlock :: "clock \<Rightarrow> completion \<Rightarrow> block \<Rightarrow> block" where
  "completedBlock clk args blk =
     (let blk = blk\<lparr> b_completed := True, b_completedAt := Some (now clk),
                     b_outcome := Some (c_outcome args), b_learned := Some (c_learned args),
                     b_nextQuestions := Some (c_nextQuestions args),
                     b_energyAfter := c_energyLevel args,
                     b_difficultyRating := Some (c_difficultyRating args),
                     b_breakthrough := c_breakthrough args \<rparr>
      in if c_engagementLevel args \<noteq> 5 \<or> length (c_unexpectedResults args) > 0
         then blk\<lparr>b_opportunityContext := Some
                \<lparr> engagementLevel = c_engagementLevel args,
                  unexpectedResults = c_unexpectedResults args,
                  newSkillsRevealed = c_newSkillsRevealed args,
                  externalFeedback = c_externalFeedback args,
                  socialReactions = c_socialReactions args,
                  viralPotential = c_viralPotential args,
                  industryConnections = c_industryConnections args,
                  serendipitousEvents = c_serendipitousEvents args \<rparr>\<rparr>
         else blk)"

text \<open>\<open>blocks.find(b => b.id === blockId)\<close> and the in-place update of the block found.\<close>

fun replaceFirst :: "string \<Rightarrow> block \<Rightarrow> block list \<Rightarrow> block list" where
  "replaceFirst blockId blk [] = []"
| "replaceFirst blockId blk (b # bs) =
     (if b_id b = blockId then blk # bs else b # replaceFirst blockId blk bs)"

record completeResult =
  block_completed :: block
  opportunity_analysis :: "opportunityResponse option"
  next_suggested_action :: nextAction

definition completeBlock ::
    "clock \<Rightarrow> completion \<Rightarrow> store \<Rightarrow> (string + completeResult) \<times> store" where
  "completeBlock clk args st =
     (case requireActiveProject st of
        Inl msg \<Rightarrow> (Inl (''Error completing block: '' @ msg), logError ''completeBlock'' msg st)
      | Inr projectId \<Rightarrow>
          (case configs st projectId of
             None \<Rightarrow> (Inl ''Error completing block: Project configuration not found'',
                       logError ''completeBlock'' ''Project configuration not found'' st)
           | Some cfg \<Rightarrow>
               (let found = (case daySchedules st (projectId, today clk) of
                               None \<Rightarrow> None
                             | Some sched \<Rightarrow>
                                 (case s_blocks sched of
                                    None \<Rightarrow> None
                                  | Some bs \<Rightarrow>
                                      map_option (Pair (sched, bs))
                                        (find (\<lambda>b. b_id b = c_blockId args) bs)))
                in case found of
                     None \<Rightarrow>
                       (Inl (''Error completing block: Block '' @ c_blockId args
                              @ '' not found in today's schedule''),
                        logError ''completeBlock''
                          (''Block '' @ c_blockId args @ '' not found in today's schedule'') st)
                   | Some ((sched, bs), blk0) \<Rightarrow>
                       (let blk = completedBlock clk args blk0;
                            sched = sched\<lparr>s_blocks :=
                                      Some (replaceFirst (c_blockId args) blk bs)\<rparr>;
                            st = st\<lparr>daySchedules :=
                                   (daySchedules st)((projectId, today clk) \<mapsto> sched)\<rparr>;
                            path = orStr (activePath cfg) ''general'';
                            st = updateLearningHistory projectId path blk st;
                            st = (if c_learned args \<noteq> [] \<or> c_nextQuestions args \<noteq> [] \<or>
                                     c_breakthrough args
                                  then evolveHTABasedOnLearning clk projectId path blk st
                                  else st)
                        in (Inr \<lparr> block_completed = blk,
                                  opportunity_analysis = handleOpportunityDetection blk,
                                  next_suggested_action = suggestNextAction sched \<rparr>, st)))))"

text \<open>A day with one learning block for the task of the scenario, and its task graph.\<close>

definition completionHTA :: hta where
  "completionHTA = emptyHTA\<lparr>frontierNodes := Some [scenarioTask]\<rparr>"

definition completionDay :: schedule where
  "completionDay =
     \<lparr> s_date = today demoClock, s_projectId = ''p1'', s_activePath = ''general'',
       s_energyLevel = 3, s_focusType = ''mixed'', s_context = ''User requested schedule'',
       s_preferences = emptyPreferences,
       s_blocks = Some [learningBlock scenarioTask 1 420 30],
       s_generated = 0 \<rparr>"

definition completionStore :: store where
  "completionStore =
     plainStore\<lparr> daySchedules := [(''p1'', today demoClock) \<mapsto> completionDay],
                 projectHTA := [''p1'' \<mapsto> completionHTA] \<rparr>"

text \<open>Readers of the answer of \<open>completeBlock\<close>.\<close>

definition contextOf :: "string + completeResult \<Rightarrow> opportunityContext option" where
  "contextOf res =
     (case res of Inl msg \<Rightarrow> None | Inr r \<Rightarrow> b_opportunityContext (block_completed r))"

definition isCompleted :: "string + completeResult \<Rightarrow> bool" where
  "isCompleted res = (case res of Inl msg \<Rightarrow> False | Inr r \<Rightarrow> b_completed (block_completed r))"

text \<open>Three ways of completing the block \<open>task_1\<close>.\<close>

definition engagedCompletion :: completion where
  "engagedCompletion = (defaultCompletion ''task_1'' ''done'')\<lparr>c_engagementLevel := 9\<rparr>"

definition engagedLearned :: completion where
  "engagedLearned = engagedCompletion\<lparr>c_learned := ''scales feel natural''\<rparr>"

definition feedbackCompletion :: completion where
  "feedbackCompletion =
     (defaultCompletion ''task_1'' ''done'')
       \<lparr>c_externalFeedback := [\<lparr>f_text = ''nice work'', f_sentiment = Some ''positive''\<rparr>]\<rparr>"

text \<open>Preferences that ask for two-hour focus sessions.\<close>

definition twoHourPrefs :: preferences where
  "twoHourPrefs = emptyPreferences\<lparr>focus_duration := Some ''2 hours''\<rparr>"

text \<open>
  The invariant of the loop of \<open>createTimeBlocks\<close>: every block ends before the next
  one starts, no duration is negative, and the last block ends at or before the cursor.
\<close>

definition chained :: "block list \<Rightarrow> int \<Rightarrow> bool" where
  "chained bs cursor =
     (sorted_wrt (\<lambda>a b. b_startMinutes a + b_duration a \<le> b_startMinutes b) bs \<and>
      list_all (\<lambda>b. 0 \<le> b_duration b \<and> b_startMinutes b + b_duration b \<le> cursor) bs)"

section \<open>Verified properties\<close>

subsection \<open>Readiness\<close>

lemma readyFilter_iff:
  "readyFilter nodes nd \<longleftrightarrow> \<not> n_completed nd \<and> (\<forall>p \<in> set (prereqsOf nd). resolves nodes p)"
  by (auto simp: readyFilter_def prereqsOf_def resolves_def completedNodeIds_def
        list_all_iff list_ex_iff split: option.splits)

lemma set_getReadyNodes:
  "set (getReadyNodes nodes) = {nd \<in> set nodes. readyFilter nodes nd}"
  by (simp add: getReadyNodes_def)

lemma set_getReadyTasks:
  "set (getReadyTasks h) =
     {nd \<in> set (orNodes (frontierNodes h)). readyFilter (orNodes (frontierNodes h)) nd}"
  by (simp add: getReadyTasks_def Let_def)

lemma set_availableTasks:
  "set (availableTasks h) =
     {nd \<in> set (orNodes (frontier_nodes h)). readyFilter (orNodes (frontier_nodes h)) nd}"
  by (simp add: availableTasks_def Let_def)

text \<open>
  C1 (as the code has it). Each of the three readiness computations returns exactly the
  nodes of its list that are not completed and whose prerequisites all resolve, a
  prerequisite resolving when it is the id or the title of a completed node. A node
  with an empty or absent prerequisite list is ready iff it is not completed. A node
  with a prerequisite that is neither the id nor the title of a completed node is not
  ready.
\<close>

theorem readiness_characterisation:
  "(nd \<in> set (getReadyNodes nodes) \<longleftrightarrow>
      nd \<in> set nodes \<and> \<not> n_completed nd \<and> (\<forall>p \<in> set (prereqsOf nd). resolves nodes p))
   \<and> (nd \<in> set (getReadyTasks h) \<longleftrightarrow>
      nd \<in> set (orNodes (frontierNodes h)) \<and> \<not> n_completed nd \<and>
      (\<forall>p \<in> set (prereqsOf nd). resolves (orNodes (frontierNodes h)) p))
   \<and> (nd \<in> set (availableTasks h) \<longleftrightarrow>
      nd \<in> set (orNodes (frontier_nodes h)) \<and> \<not> n_completed nd \<and>
      (\<forall>p \<in> set (prereqsOf nd). resolves (orNodes (frontier_nodes h)) p))
   \<and> (prereqsOf nd = [] \<longrightarrow>
      (nd \<in> set (getReadyNodes nodes) \<longleftrightarrow> nd \<in> set nodes \<and> \<not> n_completed nd))
   \<and> (q \<in> set (prereqsOf nd) \<and>
       q \<notin> set (map n_id (filter n_completed nodes)) \<and>
       q \<notin> set (map n_title (filter n_completed nodes)) \<longrightarrow>
      nd \<notin> set (getReadyNodes nodes))"
proof -
  have unresolved: "\<not> resolves nodes q"
    if "q \<notin> set (map n_id (filter n_completed nodes))"
      and "q \<notin> set (map n_title (filter n_completed nodes))"
    using that by (auto simp: resolves_def)
  show ?thesis
    unfolding set_getReadyNodes set_getReadyTasks set_availableTasks readyFilter_iff
    using unresolved by auto
qed

theorem readiness_characterisation_witness:
  "mkNode ''n2'' ''Second'' (Some [''n1'']) False
      \<in> set (getReadyNodes [mkNode ''n1'' ''First'' None True,
                             mkNode ''n2'' ''Second'' (Some [''n1'']) False])
   \<and> mkNode ''n3'' ''Third'' (Some [''n9'']) False
      \<notin> set (getReadyNodes [mkNode ''n1'' ''First'' None True,
                             mkNode ''n3'' ''Third'' (Some [''n9'']) False])"
  using readiness_characterisation
          [of "mkNode ''n2'' ''Second'' (Some [''n1'']) False"
              "[mkNode ''n1'' ''First'' None True,
                mkNode ''n2'' ''Second'' (Some [''n1'']) False]"
              "\<lparr>frontierNodes = None, frontier_nodes = None,
                lastUpdated = None, last_evolution = None\<rparr>" "''n1''"]
        readiness_characterisation
          [of "mkNode ''n3'' ''Third'' (Some [''n9'']) False"
              "[mkNode ''n1'' ''First'' None True,
                mkNode ''n3'' ''Third'' (Some [''n9'']) False]"
              "\<lparr>frontierNodes = None, frontier_nodes = None,
                lastUpdated = None, last_evolution = None\<rparr>" "''n9''"]
  by (simp add: mkNode_def prereqsOf_def resolves_def)

text \<open>
  C1 as stated fails in its last part: the prerequisite \<open>node_7\<close> is the id of no node,
  yet the node that names it is ready, because a completed node has that text as title.
\<close>

theorem readiness_orphan_id_counterexample:
  "''node_7'' \<in> set (prereqsOf (mkNode ''n2'' ''Next'' (Some [''node_7'']) False))
   \<and> ''node_7'' \<notin> set (map n_id [mkNode ''n1'' ''node_7'' None True,
                                   mkNode ''n2'' ''Next'' (Some [''node_7'']) False])
   \<and> mkNode ''n2'' ''Next'' (Some [''node_7'']) False
        \<in> set (getReadyNodes [mkNode ''n1'' ''node_7'' None True,
                               mkNode ''n2'' ''Next'' (Some [''node_7'']) False])"
  by (simp add: mkNode_def prereqsOf_def getReadyNodes_def readyFilter_def
        completedNodeIds_def)

subsection \<open>Parsing durations\<close>

lemma parseTimeToMinutes_examples:
  "parseTimeToMinutes ''30 minutes'' = 30"
  "parseTimeToMinutes ''2 hours'' = 120"
  "parseTimeToMinutes ''1 HR'' = 60"
  "parseTimeToMinutes ''about 45min'' = 45"
  "parseTimeToMinutes ''soon'' = 30"
  by code_simp+

lemma parseDuration_examples:
  "parseDuration ''30 minutes'' = 30"
  "parseDuration ''2 hours'' = 120"
  "parseDuration ''45 min'' = 30"
  by code_simp+

subsection \<open>Task score\<close>

lemma str_includes_sublist: "str_includes s sub \<longleftrightarrow> sublist sub s"
  by (induction s) (auto simp: sublist_Cons_right)

lemma isContextRelevant_iff:
  "isContextRelevant task context \<longleftrightarrow>
     (\<exists>tok \<in> set (str_split CHR '' '' (toLowerCase context)).
        length tok > 3 \<and> sublist tok (taskText task))"
  by (auto simp: isContextRelevant_def Let_def list_ex_iff str_includes_sublist)

lemma isContextRelevant_empty: "\<not> isContextRelevant task []"
  by (simp add: isContextRelevant_def toLowerCase_def)

text \<open>
  C2 (as the code has it). The score is the priority (200 when absent or 0), plus
  \<open>(5 - |energyLevel - difficulty|) * 20\<close> (difficulty 3 when absent or 0), plus 30 if the
  parsed duration (of \<open>''30 minutes''\<close> when absent or empty) is at most the available
  minutes and -50 otherwise, plus 50 if a piece of the lower-cased context between single
  space characters, longer than 3 characters, occurs in the lower-cased title, a space
  and the description, plus 100 for the opportunity type \<open>breakthrough_amplification\<close>,
  plus 25 for a generated task.
\<close>

theorem calculateTaskScore_formula:
  "calculateTaskScore task energyLevel timeInMinutes context =
     orNum (n_priority task) 200
     + (5 - \<bar>energyLevel - orNum (n_difficulty task) 3\<bar>) * 20
     + (if parseTimeToMinutes (orStr (n_duration task) ''30 minutes'') \<le> timeInMinutes
        then 30 else - 50)
     + (if \<exists>tok \<in> set (str_split CHR '' '' (toLowerCase context)).
             length tok > 3 \<and> sublist tok (taskText task)
        then 50 else 0)
     + (if n_opportunityType task = Some ''breakthrough_amplification'' then 100 else 0)
     + (if n_generated task then 25 else 0)"
proof (cases "context = []")
  case True
  then show ?thesis
    using isContextRelevant_iff [of task "[]"] isContextRelevant_empty [of task]
    by (simp add: calculateTaskScore_def Let_def)
next
  case False
  then show ?thesis
    by (simp add: calculateTaskScore_def Let_def isContextRelevant_iff)
qed

theorem calculateTaskScore_formula_witness:
  "calculateTaskScore graphTask 4 60 ''learn graph theory'' = 360"
proof -
  have tok: "\<exists>tok \<in> set (str_split CHR '' '' (toLowerCase ''learn graph theory'')).
               length tok > 3 \<and> sublist tok (taskText graphTask)"
    by code_simp
  have dur: "parseTimeToMinutes (orStr (n_duration graphTask) ''30 minutes'') = 30"
    by (simp add: graphTask_def orStr_def parseTimeToMinutes_examples)
  show ?thesis
    using calculateTaskScore_formula [of graphTask 4 60 "''learn graph theory''"] tok dur
    by (simp add: graphTask_def orNum_def)
qed

text \<open>
  C2 as stated fails: in the context \<open>go<TAB>graph\<close> the blank-separated token
  \<open>graph\<close> occurs in the title, so the claimed score contains the context bonus, but
  the code splits on the space character only, finds the single piece \<open>go<TAB>graph\<close>
  nowhere in the task text, and adds nothing.
\<close>

theorem calculateTaskScore_tab_counterexample:
  "calculateTaskScore graphTask 3 30 [CHR ''g'', CHR ''o'', CHR 0x09, CHR ''g'', CHR ''r'', CHR ''a'', CHR ''p'', CHR ''h''] = 330
   \<and> claimedTaskScore graphTask 3 30 [CHR ''g'', CHR ''o'', CHR 0x09, CHR ''g'', CHR ''r'', CHR ''a'', CHR ''p'', CHR ''h''] = 380"
  by code_simp

subsection \<open>Next task\<close>

text \<open>
  C3 (as the code has it). When the intelligence provider is absent, or its
  next-task-selection request throws, \<open>getNextTask\<close> returns the fixed placeholder,
  whose selected task is null. It reads no task graph and does not call
  \<open>selectOptimalTask\<close>.
\<close>

theorem getNextTask_fallback_is_placeholder:
  "claude = None \<or> (\<exists>req msg. claude = Some req \<and> req (NextTaskSelection ctx e t) = Inl msg)
   \<Longrightarrow> getNextTask claude ctx e t = Some placeholder \<and> r_selected_task placeholder = None"
  by (auto simp: getNextTask_def placeholder_def)

theorem getNextTask_fallback_is_placeholder_witness:
  "getNextTask None ''graph'' 3 ''30 minutes'' = Some placeholder
   \<and> getNextTask (Some (\<lambda>r. Inl ''timeout'')) ''graph'' 3 ''30 minutes'' = Some placeholder"
  using getNextTask_fallback_is_placeholder [of None "''graph''" 3 "''30 minutes''"]
        getNextTask_fallback_is_placeholder
          [of "Some (\<lambda>r. Inl ''timeout'')" "''graph''" 3 "''30 minutes''"]
  by simp

text \<open>
  C3 as stated fails: without a provider the selected task is null, although the
  built-in selector, run on a graph whose only node is ready, would pick that node.
\<close>

theorem getNextTask_no_selector_counterexample:
  "map_option r_selected_task (getNextTask None ''graph'' 3 ''30 minutes'') = Some None
   \<and> map_option fst (selectOptimalTask (emptyHTA\<lparr>frontier_nodes := Some [graphTask]\<rparr>)
        3 ''30 minutes'' ''graph'') = Some graphTask"
  by code_simp

subsection \<open>Strategy evolution\<close>

lemma sentiment_boring_stuck:
  "fa_sentiment (analyzeFeedback ''this is so boring and I feel stuck'') = ''negative''"
  by code_simp

lemma no_available_iff:
  "''no_available_tasks'' \<in> set (detectStuckIndicators h hist t) \<longleftrightarrow>
     getAvailableTasksCount h = 0"
  by (auto simp: detectStuckIndicators_def Let_def)

text \<open>
  The indicators in arithmetic terms: a completion is recent when it lies at most seven
  days back, and \<open>low_engagement\<close> is raised when the energy left by the recent
  completions averages below 2.5; with no recent completion the average counts as 0.
\<close>

lemma isRecent_iff:
  "isRecent nowMs t \<longleftrightarrow>
     (case ct_completedAt t of None \<Rightarrow> False
      | Some completedMs \<Rightarrow> nowMs - completedMs \<le> 7 * msPerDay)"
proof (cases "ct_completedAt t")
  case None
  then show ?thesis by (simp add: isRecent_def)
next
  case (Some completedMs)
  have "(of_int (nowMs - completedMs) :: rat) / of_int msPerDay \<le> 7 \<longleftrightarrow>
          (of_int (nowMs - completedMs) :: rat) \<le> of_int (7 * msPerDay)"
    by (simp add: msPerDay_def pos_divide_le_eq)
  also have "\<dots> \<longleftrightarrow> nowMs - completedMs \<le> 7 * msPerDay"
    by (simp only: of_int_le_iff)
  finally show ?thesis using Some by (simp add: isRecent_def)
qed


lemma foldl_energy_sum:
  "foldl (\<lambda>sum c. sum + orNum (ct_energyAfter c) 3) acc cs =
     acc + sum_list (map (\<lambda>c. orNum (ct_energyAfter c) 3) cs)"
  by (induction cs arbitrary: acc) simp_all


lemma average_below:
  assumes "0 < n"
  shows "(of_int tot :: rat) / of_nat n < 5 / 2 \<longleftrightarrow> 2 * tot < 5 * int n"
proof -
  have "(of_int tot :: rat) / of_nat n < 5 / 2 \<longleftrightarrow> (of_int (2 * tot) :: rat) < of_int (5 * int n)"
    using assms by (simp add: field_simps)
  also have "\<dots> \<longleftrightarrow> 2 * tot < 5 * int n"
    by (simp only: of_int_less_iff)
  finally show ?thesis .
qed


lemma low_engagement_iff:
  "''low_engagement'' \<in> set (detectStuckIndicators h hist t) \<longleftrightarrow>
     (let recent = (case hist of None \<Rightarrow> []
                    | Some x \<Rightarrow> filter (isRecent t) (completedTopics x))
      in 2 * sum_list (map (\<lambda>c. orNum (ct_energyAfter c) 3) recent)
           < 5 * int (max (length recent) 1))"
proof -
  define recent where
    "recent = (case hist of None \<Rightarrow> [] | Some x \<Rightarrow> filter (isRecent t) (completedTopics x))"
  define tot where "tot = sum_list (map (\<lambda>c. orNum (ct_energyAfter c) 3) recent)"
  define avg :: rat where "avg = of_int tot / of_nat (max (length recent) 1)"
  have "detectStuckIndicators h hist t =
          (if getAvailableTasksCount h = 0 then [''no_available_tasks''] else [])
          @ (if length recent = 0 then [''no_recent_progress''] else [])
          @ (if avg < 5 / 2 then [''low_engagement''] else [])"
    by (simp add: detectStuckIndicators_def Let_def recent_def avg_def tot_def foldl_energy_sum)
  then have "''low_engagement'' \<in> set (detectStuckIndicators h hist t) \<longleftrightarrow> avg < 5 / 2"
    by simp
  also have "\<dots> \<longleftrightarrow> 2 * tot < 5 * int (max (length recent) 1)"
    unfolding avg_def by (rule average_below) simp
  finally show ?thesis
    by (simp add: Let_def recent_def tot_def)
qed

lemma no_recent_completion_low_engagement:
  assumes "(case hist of None \<Rightarrow> [] | Some x \<Rightarrow> filter (isRecent t) (completedTopics x)) = []"
  shows "''low_engagement'' \<in> set (detectStuckIndicators h hist t)"
  using assms by (simp add: low_engagement_iff)

lemma evolveStrategy_analysis:
  assumes "requireActiveProject st = Inr pid" and "configs st pid = Some cfg"
  shows "\<exists>r. fst (evolveStrategy claude clk feedback st) = Inr r \<and>
           strategy_analysis r =
             analyzeCurrentStrategy st clk pid (orStr (activePath cfg) ''general'') feedback"
  using assms by (simp add: evolveStrategy_def Let_def)

lemma analysis_fields:
  "a_userFeedback (analyzeCurrentStrategy st clk pid path feedback) = analyzeFeedback feedback"
  "a_availableTasks (analyzeCurrentStrategy st clk pid path feedback) =
     getAvailableTasksCount (case ti_loadPathHTA st pid path of None \<Rightarrow> emptyHTA | Some d \<Rightarrow> d)"
  "a_stuckIndicators (analyzeCurrentStrategy st clk pid path feedback) =
     detectStuckIndicators (case ti_loadPathHTA st pid path of None \<Rightarrow> emptyHTA | Some d \<Rightarrow> d)
       (loadLearningHistory st pid path) (now clk)"
  by (simp_all add: analyzeCurrentStrategy_def Let_def)

lemma analysis_evolution:
  "a_recommendedEvolution (analyzeCurrentStrategy st clk pid path feedback) =
     Some (let ind = detectStuckIndicators
                       (case ti_loadPathHTA st pid path of None \<Rightarrow> emptyHTA | Some d \<Rightarrow> d)
                       (loadLearningHistory st pid path) (now clk)
           in if ''no_available_tasks'' \<in> set ind then ''generate_new_tasks''
              else if ''low_engagement'' \<in> set ind then ''increase_variety_and_interest''
              else if fa_sentiment (analyzeFeedback feedback) = ''negative''
              then ''address_user_concerns''
              else if getAvailableTasksCount
                        (case ti_loadPathHTA st pid path of None \<Rightarrow> emptyHTA | Some d \<Rightarrow> d) < 3
              then ''expand_task_frontier''
              else ''optimize_existing_sequence'')"
  by (simp add: analyzeCurrentStrategy_def Let_def determineEvolutionStrategy_def)

lemma demoStore_project: "requireActiveProject (demoStore e) = Inr ''p1''"
  by (simp add: requireActiveProject_def demoStore_def)

lemma demoStore_config:
  "configs (demoStore e) ''p1'' = Some \<lparr>activePath = None, life_structure_preferences = None\<rparr>"
  by (simp add: demoStore_def)

lemma demoStore_hta: "ti_loadPathHTA (demoStore e) ''p1'' ''general'' = Some demoHTA"
  by (simp add: ti_loadPathHTA_def demoStore_def)

lemma demoHTA_available: "getAvailableTasksCount demoHTA = 3"
  by code_simp

lemma demoStore_engaged:
  "detectStuckIndicators demoHTA
     (loadLearningHistory (demoStore 4) ''p1'' ''general'') (now demoClock) = []"
  by code_simp

lemma demoStore_tired:
  "detectStuckIndicators demoHTA
     (loadLearningHistory (demoStore 1) ''p1'' ''general'') (now demoClock) = [''low_engagement'']"
  by code_simp

text \<open>
  C10 (as the code has it). When \<open>evolveStrategy\<close> gets past its configuration checks,
  at least 3 tasks are available and the indicator \<open>low_engagement\<close> is not raised, the
  feedback \<open>this is so boring and I feel stuck\<close> is classified negative and the strategy
  is \<open>address_user_concerns\<close>.
\<close>

theorem evolveStrategy_negative_feedback:
  assumes "requireActiveProject st = Inr pid" and "configs st pid = Some cfg"
    and "h = (case ti_loadPathHTA st pid (orStr (activePath cfg) ''general'') of
                None \<Rightarrow> emptyHTA | Some d \<Rightarrow> d)"
    and "3 \<le> getAvailableTasksCount h"
    and "''low_engagement'' \<notin> set (detectStuckIndicators h
           (loadLearningHistory st pid (orStr (activePath cfg) ''general'')) (now clk))"
  shows "sentimentOf (fst (evolveStrategy claude clk ''this is so boring and I feel stuck'' st))
           = Some ''negative''
         \<and> evolutionOf (fst (evolveStrategy claude clk ''this is so boring and I feel stuck'' st))
           = Some ''address_user_concerns''"
proof -
  obtain r where r:
    "fst (evolveStrategy claude clk ''this is so boring and I feel stuck'' st) = Inr r"
    "strategy_analysis r =
       analyzeCurrentStrategy st clk pid (orStr (activePath cfg) ''general'')
         ''this is so boring and I feel stuck''"
    using evolveStrategy_analysis [OF assms(1,2)] by blast
  have "''no_available_tasks'' \<notin> set (detectStuckIndicators h
           (loadLearningHistory st pid (orStr (activePath cfg) ''general'')) (now clk))"
    using assms(4) by (simp add: no_available_iff)
  then show ?thesis
    using assms(3,5) r
    by (simp add: sentimentOf_def evolutionOf_def analysis_fields analysis_evolution
          sentiment_boring_stuck)
qed

theorem evolveStrategy_negative_feedback_witness:
  "sentimentOf (fst (evolveStrategy None demoClock ''this is so boring and I feel stuck''
      (demoStore 4))) = Some ''negative''
   \<and> evolutionOf (fst (evolveStrategy None demoClock ''this is so boring and I feel stuck''
      (demoStore 4))) = Some ''address_user_concerns''"
  using evolveStrategy_negative_feedback [of "demoStore 4" "''p1''"
          "\<lparr>activePath = None, life_structure_preferences = None\<rparr>" demoHTA demoClock None]
  by (simp add: demoStore_project demoStore_hta demoHTA_available demoStore_engaged
        demoStore_config orStr_def)

text \<open>
  C10 as stated fails: with three available tasks and one completion of the last week
  that left energy 1, the sentiment is negative but \<open>low_engagement\<close> is tested first and
  decides the strategy.
\<close>

theorem evolveStrategy_low_engagement_counterexample:
  "availableOf (fst (evolveStrategy None demoClock ''this is so boring and I feel stuck''
      (demoStore 1))) = Some 3
   \<and> sentimentOf (fst (evolveStrategy None demoClock ''this is so boring and I feel stuck''
      (demoStore 1))) = Some ''negative''
   \<and> evolutionOf (fst (evolveStrategy None demoClock ''this is so boring and I feel stuck''
      (demoStore 1))) = Some ''increase_variety_and_interest''"
proof -
  obtain r where r:
    "fst (evolveStrategy None demoClock ''this is so boring and I feel stuck'' (demoStore 1)) = Inr r"
    "strategy_analysis r =
       analyzeCurrentStrategy (demoStore 1) demoClock ''p1'' ''general''
         ''this is so boring and I feel stuck''"
    using evolveStrategy_analysis [of "demoStore 1" "''p1''"
            "\<lparr>activePath = None, life_structure_preferences = None\<rparr>" None demoClock
            "''this is so boring and I feel stuck''"]
    by (auto simp: orStr_def demoStore_project demoStore_config)
  show ?thesis
    using r
    by (simp add: sentimentOf_def evolutionOf_def availableOf_def analysis_fields
          analysis_evolution sentiment_boring_stuck demoStore_hta demoHTA_available
          demoStore_tired)
qed

subsection \<open>Task duration\<close>

lemma digitVal_nonneg: "isDigit c \<Longrightarrow> 0 \<le> digitVal c"
  by (auto simp: isDigit_def digitVal_def)

lemma foldl_digits_nonneg:
  "list_all isDigit ds \<Longrightarrow> 0 \<le> acc \<Longrightarrow> 0 \<le> foldl (\<lambda>acc c. 10 * acc + digitVal c) acc ds"
  by (induction ds arbitrary: acc) (auto simp: digitVal_nonneg)

lemma parseIntDigits_nonneg: "list_all isDigit ds \<Longrightarrow> 0 \<le> parseIntDigits ds"
  by (simp add: parseIntDigits_def foldl_digits_nonneg)

lemma matchAt_digits: "matchAt units s = Some (ds, u) \<Longrightarrow> list_all isDigit ds"
  by (auto simp: matchAt_def Let_def list_all_iff split: if_splits option.splits
        dest: set_takeWhileD)

lemma regexMatch_digits: "regexMatch units s = Some (ds, u) \<Longrightarrow> list_all isDigit ds"
  by (induction s) (auto split: option.splits dest: matchAt_digits)

lemma parseDuration_nonneg: "0 \<le> parseDuration s"
  by (auto simp: parseDuration_def Let_def split: option.splits
        dest!: regexMatch_digits parseIntDigits_nonneg)

lemma round_three_halves: "round (of_int b * (3 / 2) :: rat) = (3 * b + 1) div 2"
proof -
  have "(of_int b * (3 / 2) + 1 / 2 :: rat) = of_int (3 * b + 1) / of_int 2"
    by (simp add: field_simps)
  then show ?thesis
    unfolding round_def by (simp only: floor_divide_of_int_eq)
qed

lemma round_over_power: "round (of_int m / 2 ^ 52 :: rat) = (2 * m + 2 ^ 52) div 2 ^ 53"
proof -
  have "(of_int m / 2 ^ 52 + 1 / 2 :: rat) = of_int (2 * m + 2 ^ 52) / of_int (2 ^ 53)"
    by (simp add: field_simps)
  then show ?thesis
    unfolding round_def by (simp only: floor_divide_of_int_eq)
qed

text \<open>The rounded double product, in integer arithmetic.\<close>

lemma round_timesDouble07:
  "round (timesDouble07 b) =
     (let n = b * 3152519739159347; len = bitlen n
      in if len \<le> 53 then (2 * n + 2 ^ 52) div 2 ^ 53
         else (let shift = nat (len - 53); q = n div 2 ^ shift; r = n mod 2 ^ shift;
                   half = 2 ^ (shift - 1);
                   q = (if r > half \<or> (r = half \<and> odd q) then q + 1 else q)
               in (2 * (q * 2 ^ shift) + 2 ^ 52) div 2 ^ 53))"
  unfolding timesDouble07_def Let_def
  by (simp only: round_over_power if_distrib [of round] cong: if_cong)

text \<open>
  Below 172 minutes the clamped result is checked value by value: it is the exact
  \<open>7/10\<close> of the base, a half rounded up, except at 45, 85 and 165 minutes, where the
  double product falls just below the half and the result is one less.
\<close>

lemma timesDouble07_small:
  "list_all (\<lambda>b. max 15 (min 120 (round (timesDouble07 b))) =
                  max 15 (min 120 ((7 * b + 5) div 10 - (if b \<in> {45, 85, 165} then 1 else 0))))
     [0..171]"
  unfolding round_timesDouble07 by code_simp

text \<open>From 172 minutes on the product is at least 120, whatever the rounding does.\<close>

lemma timesDouble07_large:
  assumes "172 \<le> b"
  shows "120 \<le> timesDouble07 b"
proof -
  define n where "n = b * 3152519739159347"
  have n: "542233395135407684 \<le> n" using assms by (simp add: n_def)
  show ?thesis
  proof (cases "bitlen n \<le> 53")
    case True
    then have "timesDouble07 b = of_int n / 2 ^ 52"
      by (simp add: timesDouble07_def Let_def n_def)
    moreover have "(120::rat) \<le> of_int n / 2 ^ 52"
    proof -
      have "(120::rat) * 2 ^ 52 \<le> of_int 542233395135407684" by simp
      also have "\<dots> \<le> of_int n" using n by (simp only: of_int_le_iff)
      finally show ?thesis by (simp add: pos_le_divide_eq)
    qed
    ultimately show ?thesis by simp
  next
    case False
    define shift where "shift = nat (bitlen n - 53)"
    define X :: int where "X = 2 ^ shift"
    define q where "q = n div X"
    define q' where "q' = (if n mod X > 2 ^ (shift - 1) \<or> (n mod X = 2 ^ (shift - 1) \<and> odd q)
                           then q + 1 else q)"
    have val: "timesDouble07 b = of_int (q' * X) / 2 ^ 52"
      using False by (simp add: timesDouble07_def Let_def n_def [symmetric] shift_def [symmetric]
          X_def q_def q'_def)
    have Xpos: "0 < X" by (simp add: X_def)
    have "2 ^ nat (bitlen n - 1) \<le> n"
      using bitlen_bounds [of n] n by simp
    moreover have "nat (bitlen n - 1) = shift + 52"
      using False by (simp add: shift_def)
    ultimately have big: "X * 2 ^ 52 \<le> n"
      by (simp add: X_def power_add)
    have "q * X = n - n mod X"
      by (simp add: q_def minus_mod_eq_div_mult)
    moreover have "n mod X < X" using Xpos by simp
    ultimately have "n - X < q * X" by simp
    moreover have "q \<le> q'" by (simp add: q'_def)
    then have "q * X \<le> q' * X" using Xpos by (simp add: mult_right_mono)
    ultimately have "n - X < q' * X" by simp
    moreover have "120 * 2 ^ 52 \<le> n - X"
      using big n by simp
    ultimately have "(120::int) * 2 ^ 52 \<le> q' * X" by simp
    then have "(of_int (120 * 2 ^ 52) :: rat) \<le> of_int (q' * X)"
      by (simp only: of_int_le_iff)
    then have "(120::rat) \<le> of_int (q' * X) / 2 ^ 52"
      by (simp add: pos_le_divide_eq)
    then show ?thesis by (simp add: val)
  qed
qed

lemma timesDouble07_clamped:
  assumes "0 \<le> b"
  shows "max 15 (min 120 (round (timesDouble07 b))) =
         max 15 (min 120 ((7 * b + 5) div 10 - (if b \<in> {45, 85, 165} then 1 else 0)))"
proof (cases "b \<le> 171")
  case True
  then have "b \<in> set [0..171]" using assms by simp
  with timesDouble07_small show ?thesis
    unfolding list_all_iff by blast
next
  case False
  then have b: "172 \<le> b" by simp
  have "round (120::rat) \<le> round (timesDouble07 b)"
    by (rule round_mono) (rule timesDouble07_large [OF b])
  then have "120 \<le> round (timesDouble07 b)" by simp
  moreover have "120 \<le> (7 * b + 5) div 10 - (if b \<in> {45, 85, 165} then 1 else 0)"
    using b by auto
  ultimately show ?thesis by simp
qed

text \<open>
  C9 (as the code has it). The focus preference is tested in the order \<open>25\<close>,
  \<open>1 hour\<close>, \<open>2 hour\<close>: the first gives 25, the second 60, the third twice the
  base duration but at most 120. Otherwise the base duration is scaled by the energy
  level, rounded and clamped to 15 .. 120: for energy 4 and more it is 3/2 of the base,
  a half rounded up; for energy 2 and less it is 7/10 of the base, a half rounded up,
  less one at the bases 45, 85 and 165 (double rounding); in between it is the base.
\<close>

theorem calculateTaskDuration_cases:
  "calculateTaskDuration task prefs energyLevel =
     (let base = parseDuration (orStr (n_duration task) ''30 minutes'');
          focus = orStr (focus_duration prefs) ''flexible''
      in if sublist ''25'' focus then 25
         else if sublist ''1 hour'' focus then 60
         else if sublist ''2 hour'' focus then min 120 (base * 2)
         else if energyLevel \<ge> 4 then max 15 (min 120 ((3 * base + 1) div 2))
         else if energyLevel \<le> 2
         then max 15 (min 120 ((7 * base + 5) div 10 - (if base \<in> {45, 85, 165} then 1 else 0)))
         else max 15 (min 120 base))"
proof -
  define base where "base = parseDuration (orStr (n_duration task) ''30 minutes'')"
  have "0 \<le> base"
    by (simp add: base_def parseDuration_nonneg)
  then have low: "max 15 (min 120 (round (timesDouble07 base))) =
      max 15 (min 120 ((7 * base + 5) div 10 - (if base \<in> {45, 85, 165} then 1 else 0)))"
    by (rule timesDouble07_clamped)
  have scaled: "max 15 (min 120 (round
        (if energyLevel \<ge> 4 then of_int base * (3 / 2)
         else if energyLevel \<le> 2 then timesDouble07 base else of_int base))) =
      (if energyLevel \<ge> 4 then max 15 (min 120 ((3 * base + 1) div 2))
       else if energyLevel \<le> 2
       then max 15 (min 120 ((7 * base + 5) div 10 - (if base \<in> {45, 85, 165} then 1 else 0)))
       else max 15 (min 120 base))"
  proof (cases "energyLevel \<ge> 4")
    case True
    then show ?thesis by (simp only: if_True round_three_halves)
  next
    case False
    show ?thesis
    proof (cases "energyLevel \<le> 2")
      case True
      with False show ?thesis by (simp only: if_True if_False low)
    next
      case high: False
      with False show ?thesis by (simp only: if_False round_of_int)
    qed
  qed
  show ?thesis
    unfolding calculateTaskDuration_def Let_def str_includes_sublist base_def [symmetric]
    by (simp only: scaled)
qed

theorem calculateTaskDuration_cases_witness:
  "calculateTaskDuration scenarioTask emptyPreferences 1 = 21
   \<and> calculateTaskDuration scenarioTask emptyPreferences 5 = 45
   \<and> calculateTaskDuration scenarioTask twoHourPrefs 5 = 60"
proof -
  have base: "parseDuration (orStr (n_duration scenarioTask) ''30 minutes'') = 30"
    by (simp add: scenarioTask_def orStr_def parseDuration_examples)
  have focus: "orStr (focus_duration emptyPreferences) ''flexible'' = ''flexible''"
    "orStr (focus_duration twoHourPrefs) ''flexible'' = ''2 hours''"
    by (simp_all add: emptyPreferences_def twoHourPrefs_def orStr_def)
  have mentions: "\<not> sublist ''25'' ''flexible''" "\<not> sublist ''1 hour'' ''flexible''"
    "\<not> sublist ''2 hour'' ''flexible''" "\<not> sublist ''25'' ''2 hours''"
    "\<not> sublist ''1 hour'' ''2 hours''" "sublist ''2 hour'' ''2 hours''"
    by code_simp+
  show ?thesis
    using calculateTaskDuration_cases [of scenarioTask emptyPreferences 1]
          calculateTaskDuration_cases [of scenarioTask emptyPreferences 5]
          calculateTaskDuration_cases [of scenarioTask twoHourPrefs 5]
    by (simp add: base focus mentions)
qed

text \<open>
  C9 as stated fails: the preference \<open>2 hours\<close> mentions \<open>2 hour\<close>, yet for the
  30-minute task the duration is 60, twice the base, not a fixed 120.
\<close>

theorem two_hour_preference_counterexample:
  "str_includes (orStr (focus_duration twoHourPrefs) ''flexible'') ''2 hour''
   \<and> calculateTaskDuration scenarioTask twoHourPrefs 3 = 60"
  by code_simp

text \<open>The double product at work: 45 minutes at low energy give 31, not 32.\<close>

lemma duration_45_minutes_low_energy:
  "calculateTaskDuration (scenarioTask\<lparr>n_duration := Some ''45 minutes''\<rparr>) emptyPreferences 1
     = 31"
  by code_simp

subsection \<open>The loop of the schedule packer\<close>

text \<open>
  Whatever \<open>priorityHours\<close> is bound to, the blocks of the loop are chained: each ends
  before the next starts. The check \<open>blocks.length > 50\<close>, made after a pass that appends
  one or two blocks, lets the list grow to 52 when the identifier is bound.
\<close>

lemma calculateTaskDuration_nonneg: "0 \<le> calculateTaskDuration task prefs energyLevel"
proof -
  have "0 \<le> parseDuration (orStr (n_duration task) ''30 minutes'') * 2"
    using parseDuration_nonneg [of "orStr (n_duration task) ''30 minutes''"] by simp
  moreover have "0 \<le> max 15 x" for x :: int
    by (simp add: le_max_iff_disj)
  ultimately show ?thesis
    by (simp add: calculateTaskDuration_def Let_def)
qed

lemma getBreakDuration_nonneg: "0 \<le> getBreakDuration prefs"
  by (simp add: getBreakDuration_def Let_def)

lemma generateHabitBlock_nonneg: "0 \<le> snd (generateHabitBlock t)"
  by (simp add: generateHabitBlock_def Let_def)

lemma chained_append:
  assumes "chained bs cursor" and "0 \<le> b_duration b" and "b_startMinutes b = cursor"
  shows "chained (bs @ [b]) (cursor + b_duration b)"
  using assms
  by (auto simp: chained_def sorted_wrt_append list_all_iff)

lemma newBlock_fields:
  "b_startMinutes (newBlock bid btype btitle start dur prio) = start"
  "b_duration (newBlock bid btype btitle start dur prio) = dur"
  by (simp_all add: newBlock_def)

lemma learningBlock_fields:
  "b_startMinutes (learningBlock task k start dur) = start"
  "b_duration (learningBlock task k start dur) = dur"
  by (simp_all add: learningBlock_def newBlock_def)

lemma chained_mealBranch:
  "chained (ps_blocks st) (ps_currentTime st) \<Longrightarrow>
   chained (ps_blocks (mealBranch mealTimes st)) (ps_currentTime (mealBranch mealTimes st))"
  using chained_append [of "ps_blocks st" "ps_currentTime st"
          "newBlock (''meal_'' @ showNat (ps_blockId st)) ''meal''
             (getMealType (ps_currentTime st) mealTimes) (ps_currentTime st) 45 (Label ''high'')"]
  by (simp add: mealBranch_def newBlock_fields)

lemma chained_habitBranch:
  "chained (ps_blocks st) (ps_currentTime st) \<Longrightarrow>
   chained (ps_blocks (habitBranch st)) (ps_currentTime (habitBranch st))"
  using chained_append [of "ps_blocks st" "ps_currentTime st"
          "newBlock (''habit_'' @ showNat (ps_blockId st)) ''habit''
             (fst (generateHabitBlock (ps_currentTime st))) (ps_currentTime st)
             (snd (generateHabitBlock (ps_currentTime st))) (Label ''low'')"]
        generateHabitBlock_nonneg [of "ps_currentTime st"]
  by (simp add: habitBranch_def Let_def newBlock_fields)

lemma chained_breakBranch:
  "chained (ps_blocks st) (ps_currentTime st) \<Longrightarrow>
   chained (ps_blocks (breakBranch prefs st)) (ps_currentTime (breakBranch prefs st))"
  using chained_append [of "ps_blocks st" "ps_currentTime st"
          "newBlock (''break_'' @ showNat (ps_blockId st)) ''break'' ''Break & Reflection''
             (ps_currentTime st) (getBreakDuration prefs) (Label ''medium'')"]
        getBreakDuration_nonneg [of prefs]
  by (simp add: breakBranch_def newBlock_fields)

lemma chained_learningBranch:
  assumes "chained (ps_blocks st) (ps_currentTime st)"
  shows "chained (ps_blocks (learningBranch energyLevel focusType prefs endTime st))
           (ps_currentTime (learningBranch energyLevel focusType prefs endTime st))"
proof -
  define task where
    "task = selectTaskForTimeSlot (ps_readyTasks st) (ps_currentTime st) energyLevel focusType"
  define duration where "duration = calculateTaskDuration task prefs energyLevel"
  define st1 where
    "st1 = st\<lparr> ps_blocks := ps_blocks st @
                  [learningBlock task (ps_blockId st) (ps_currentTime st) duration],
                ps_blockId := ps_blockId st + 1,
                ps_readyTasks := remove1 task (ps_readyTasks st),
                ps_currentTime := ps_currentTime st + duration \<rparr>"
  have "0 \<le> duration"
    by (simp add: duration_def calculateTaskDuration_nonneg)
  then have one: "chained (ps_blocks st1) (ps_currentTime st1)"
    using chained_append [OF assms, of
            "learningBlock task (ps_blockId st) (ps_currentTime st) duration"]
    by (simp add: st1_def learningBlock_fields)
  have "learningBranch energyLevel focusType prefs endTime st =
          (if ps_currentTime st1 < endTime - 30 then breakBranch prefs st1 else st1)"
    by (simp add: learningBranch_def Let_def task_def duration_def st1_def)
  then show ?thesis
    using one chained_breakBranch [OF one, of prefs] by simp
qed

lemma chained_loopBody:
  assumes "loopBody priorityHours mealTimes energyLevel focusType prefs endTime st = Inr st'"
    and "chained (ps_blocks st) (ps_currentTime st)"
  shows "chained (ps_blocks st') (ps_currentTime st')"
proof -
  obtain hours where hours: "priorityHours = Some hours"
    using assms(1) by (cases priorityHours) (simp_all add: loopBody_def)
  have "st' = mealBranch mealTimes st \<or>
        st' = learningBranch energyLevel focusType prefs endTime st \<or>
        st' = habitBranch st"
    using assms(1) unfolding loopBody_def Let_def hours
    by (simp split: if_splits)
  then show ?thesis
    using chained_mealBranch [OF assms(2)] chained_learningBranch [OF assms(2)]
          chained_habitBranch [OF assms(2)]
    by auto
qed

lemma timeBlockLoop_invariant:
  assumes "timeBlockLoop priorityHours mealTimes energyLevel focusType prefs endTime st = Inr final"
    and "chained (ps_blocks st) (ps_currentTime st)"
    and "length (ps_blocks st) \<le> 50"
  shows "chained (ps_blocks final) (ps_currentTime final) \<and> length (ps_blocks final) \<le> 52"
  using assms
proof (induction priorityHours mealTimes energyLevel focusType prefs endTime st
        rule: timeBlockLoop.induct)
  case (1 priorityHours mealTimes energyLevel focusType prefs endTime st)
  show ?case
  proof (cases "ps_currentTime st < endTime")
    case False
    then have "final = st"
      using "1.prems"(1) by (subst (asm) timeBlockLoop.simps) simp
    then show ?thesis using "1.prems"(2,3) by simp
  next
    case True
    then obtain st' where
      body: "loopBody priorityHours mealTimes energyLevel focusType prefs endTime st = Inr st'"
      using "1.prems"(1)
      by (subst (asm) timeBlockLoop.simps) (auto split: sum.splits)
    have rest: "(if length (ps_blocks st') > 50 then Inr st'
                 else timeBlockLoop priorityHours mealTimes energyLevel focusType prefs endTime st')
                = Inr final"
      using "1.prems"(1) True body by (subst (asm) timeBlockLoop.simps) simp
    have inv': "chained (ps_blocks st') (ps_currentTime st')"
      by (rule chained_loopBody [OF body "1.prems"(2)])
    have len': "length (ps_blocks st') \<le> 52"
      using loopBody_grows(2) [OF body] "1.prems"(3) by simp
    show ?thesis
    proof (cases "length (ps_blocks st') > 50")
      case True
      with rest have "final = st'" by simp
      then show ?thesis using inv' len' by simp
    next
      case False
      with rest have
        "timeBlockLoop priorityHours mealTimes energyLevel focusType prefs endTime st' = Inr final"
        by simp
      then show ?thesis
        using "1.IH" [OF True body False _ inv'] False by simp
    qed
  qed
qed

lemma chained_sorted: "chained bs cursor \<Longrightarrow> sorted (map b_startMinutes bs)"
proof -
  assume c: "chained bs cursor"
  have "sorted_wrt (\<lambda>a b. b_startMinutes a \<le> b_startMinutes b) bs"
  proof (rule sorted_wrt_mono_rel [of bs "\<lambda>a b. b_startMinutes a + b_duration a \<le> b_startMinutes b"])
    fix a b assume "a \<in> set bs" "b \<in> set bs"
      and "b_startMinutes a + b_duration a \<le> b_startMinutes b"
    moreover have "0 \<le> b_duration a"
      using c \<open>a \<in> set bs\<close> by (auto simp: chained_def list_all_iff)
    ultimately show "b_startMinutes a \<le> b_startMinutes b" by simp
  next
    show "sorted_wrt (\<lambda>a b. b_startMinutes a + b_duration a \<le> b_startMinutes b) bs"
      using c by (simp add: chained_def)
  qed
  then show ?thesis by (simp add: sorted_map)
qed

lemma chained_noOverlap: "chained bs cursor \<Longrightarrow> noOverlap bs"
  unfolding chained_def noOverlap_def overlapping_def sorted_wrt_iff_nth_less
  by (metis not_le)

lemma createTimeBlocks_chained:
  assumes "createTimeBlocks priorityHours wakeTime sleepTime mealTimes readyTasks energyLevel
             focusType prefs = Inr bs"
  shows "length bs \<le> 52 \<and> sorted (map b_startMinutes bs) \<and> noOverlap bs"
proof (cases "\<exists>wake endTime. wakeTime = Num wake \<and> sleepTime = Num endTime")
  case False
  then have "bs = []"
    using assms by (auto simp: createTimeBlocks_def split: jsnum.splits)
  then show ?thesis by (simp add: noOverlap_def)
next
  case True
  then obtain wake endTime where t: "wakeTime = Num wake" "sleepTime = Num endTime" by blast
  obtain final where
    run: "timeBlockLoop priorityHours mealTimes energyLevel focusType prefs endTime
            \<lparr> ps_blocks = [], ps_currentTime = wake, ps_blockId = 1,
              ps_readyTasks = readyTasks \<rparr> = Inr final"
    and bs: "bs = ps_blocks final"
    using assms by (auto simp: createTimeBlocks_def t split: sum.splits)
  have "chained (ps_blocks final) (ps_currentTime final) \<and> length (ps_blocks final) \<le> 52"
    by (rule timeBlockLoop_invariant [OF run]) (simp_all add: chained_def)
  then show ?thesis
    using bs chained_sorted chained_noOverlap by blast
qed

text \<open>Both bounds are reached: 51 habit blocks from midnight, 52 blocks with 26 tasks.\<close>

lemma cap_exceeded_by_one:
  "map_sum id length
     (createTimeBlocks (Some []) (Num 0) (Num 1320) [] [] 3 ''mixed'' emptyPreferences)
   = Inr 51"
  by code_simp

lemma cap_exceeded_by_two:
  "map_sum id length
     (createTimeBlocks (Some []) (Num 0) (Num 1320) [] (replicate 26 scenarioTask) 3 ''mixed''
        emptyPreferences)
   = Inr 52"
  by code_simp

subsection \<open>Schedule packer\<close>

lemma loopBody_unbound:
  "loopBody None mealTimes energyLevel focusType prefs endTime st =
     Inl (ReferenceError ''priorityHours is not defined'')"
  by (simp add: loopBody_def Let_def)

lemma timeBlockLoop_unbound:
  "timeBlockLoop None mealTimes energyLevel focusType prefs endTime st =
     (if ps_currentTime st < endTime
      then Inl (ReferenceError ''priorityHours is not defined'') else Inr st)"
  by (subst timeBlockLoop.simps) (simp add: loopBody_unbound)

lemma createTimeBlocks_unbound:
  "createTimeBlocks None wakeTime sleepTime mealTimes readyTasks energyLevel focusType prefs =
     (case (wakeTime, sleepTime) of
        (Num wake, Num endTime) \<Rightarrow>
          if wake < endTime then Inl (ReferenceError ''priorityHours is not defined'')
          else Inr []
      | _ \<Rightarrow> Inr [])"
  by (simp add: createTimeBlocks_def timeBlockLoop_unbound split: jsnum.splits)

lemma defaultTimes:
  "parseTime ''7:00 AM'' = Num 420" "parseTime ''10:00 PM'' = Num 1320"
  "parseTime ''12:00 PM'' = Num 720" "parseTime ''8:00 AM'' = Num 480"
  by code_simp+



text \<open>
  C5, evaluated on the code. For wake time 7:00 AM, sleep time 10:00 PM, the meal time
  12:00 PM and a pool holding the one task of the scenario, \<open>createTimeBlocks\<close> raises
  the ReferenceError and yields no block at all.
\<close>

theorem scenario_raises:
  "createTimeBlocks None (parseTime ''7:00 AM'') (parseTime ''10:00 PM'')
     (parseMealTimes [''12:00 PM'']) [scenarioTask] 3 ''mixed'' emptyPreferences
   = Inl (ReferenceError ''priorityHours is not defined'')"
  by (simp add: createTimeBlocks_unbound defaultTimes)

text \<open>
  Had the identifier been bound to the empty list that \<open>generateComprehensiveSchedule\<close>
  computes for an absent \<open>availableHours\<close>, the day of the scenario would be: the
  30-minute learning block of the task at 7:00, a break, habit blocks, the 45-minute
  meal block at 11:45, and habit blocks until 22:00.
\<close>

lemma scenario_with_binding:
  "map_sum id (map blockSummary)
     (createTimeBlocks (Some []) (parseTime ''7:00 AM'') (parseTime ''10:00 PM'')
        (parseMealTimes [''12:00 PM'']) [scenarioTask] 3 ''mixed'' emptyPreferences)
   = Inr ([(''learning'', 420, 30, Some ''t1''), (''break'', 450, 15, None)]
          @ map (\<lambda>k. (''habit'', 465 + 30 * k, 30, None)) [0..4]
          @ map (\<lambda>k. (''habit'', 615 + 15 * k, 15, None)) [0..5]
          @ [(''meal'', 705, 45, None)]
          @ map (\<lambda>k. (''habit'', 750 + 15 * k, 15, None)) [0..25]
          @ map (\<lambda>k. (''habit'', 1140 + 45 * k, 45, None)) [0..3])"
  by code_simp

text \<open>
  C6 (as the code has it). \<open>createTimeBlocks\<close> reads \<open>priorityHours\<close>, which it neither
  declares nor receives. For every input whose wake time is strictly before its sleep
  time the first pass through the loop raises a ReferenceError, whether or not the wake
  time lies in a meal window; \<open>generateDailySchedule\<close> takes its \<open>catch\<close> branch, logs
  the error, answers with the error text, and saves no day schedule.
\<close>

theorem schedule_reference_error:
  assumes "requireActiveProject st = Inr pid" and "configs st pid = Some cfg"
    and "prefs = (case life_structure_preferences cfg of None \<Rightarrow> emptyPreferences | Some p \<Rightarrow> p)"
    and "parseTime (orStr (wake_time prefs) ''7:00 AM'') = Num wake"
    and "parseTime (orStr (sleep_time prefs) ''10:00 PM'') = Num endTime"
    and "wake < endTime"
  shows "loopBody None mealTimes energyLevel focusType prefs endTime
           \<lparr> ps_blocks = [], ps_currentTime = wake, ps_blockId = 1, ps_readyTasks = tasks \<rparr>
         = Inl (ReferenceError ''priorityHours is not defined'')
       \<and> createTimeBlocks None (Num wake) (Num endTime) mealTimes tasks energyLevel focusType
           prefs = Inl (ReferenceError ''priorityHours is not defined'')
       \<and> generateDailySchedule None clk dateStr energyLevel availableHours focusType context st
         = (Inl ''Error generating schedule: priorityHours is not defined'',
            logError ''generateDailySchedule'' ''priorityHours is not defined'' st)
       \<and> daySchedules (snd (generateDailySchedule None clk dateStr energyLevel availableHours
                               focusType context st)) = daySchedules st"
proof -
  have gen: "generateComprehensiveSchedule None st clk cfg pid date energyLevel availableHours
               focusType context = Inl (ReferenceError ''priorityHours is not defined'')" for date
    using assms(3-6)
    by (simp add: generateComprehensiveSchedule_def Let_def createTimeBlocks_unbound)
  have daily: "generateDailySchedule None clk dateStr energyLevel availableHours focusType
                 context st
               = (Inl ''Error generating schedule: priorityHours is not defined'',
                  logError ''generateDailySchedule'' ''priorityHours is not defined'' st)"
    using assms(1,2) by (simp add: generateDailySchedule_def Let_def gen errorMessage_def)
  show ?thesis
    using assms(6) by (simp add: loopBody_unbound createTimeBlocks_unbound daily logError_def)
qed

theorem schedule_reference_error_witness:
  "generateDailySchedule None demoClock None 3 NoHours ''mixed'' ''User requested schedule''
     plainStore
   = (Inl ''Error generating schedule: priorityHours is not defined'',
      logError ''generateDailySchedule'' ''priorityHours is not defined'' plainStore)"
  using schedule_reference_error [of plainStore "''p1''"
          "\<lparr>activePath = None, life_structure_preferences = None\<rparr>" emptyPreferences
          420 1320 "[]" 3 "''mixed''" "[]" demoClock None NoHours "''User requested schedule''"]
  by (simp add: requireActiveProject_def plainStore_def emptyPreferences_def orStr_def
        defaultTimes)

text \<open>
  C6 as stated fails in one detail: the pass that raises need not be a non-meal pass.
  With wake time 8:00 AM and a meal at 8:00 AM the first pass is in the meal window, and
  it raises, because the identifier is read before the meal test.
\<close>

theorem meal_iteration_raises_counterexample:
  "isMealTime 480 [Num 480]
   \<and> loopBody None [Num 480] 3 ''mixed'' emptyPreferences 1320
        \<lparr> ps_blocks = [], ps_currentTime = 480, ps_blockId = 1, ps_readyTasks = [] \<rparr>
      = Inl (ReferenceError ''priorityHours is not defined'')"
  by (simp add: isMealTime_def loopBody_def)

subsection \<open>Completion\<close>

lemma completedBlock_context:
  "b_opportunityContext (completedBlock clk args blk) =
     (if c_engagementLevel args \<noteq> 5 \<or> c_unexpectedResults args \<noteq> []
      then Some \<lparr> engagementLevel = c_engagementLevel args,
                  unexpectedResults = c_unexpectedResults args,
                  newSkillsRevealed = c_newSkillsRevealed args,
                  externalFeedback = c_externalFeedback args,
                  socialReactions = c_socialReactions args,
                  viralPotential = c_viralPotential args,
                  industryConnections = c_industryConnections args,
                  serendipitousEvents = c_serendipitousEvents args \<rparr>
      else b_opportunityContext blk)"
  by (simp add: completedBlock_def Let_def)

lemma completedBlock_fields:
  "b_taskId (completedBlock clk args blk) = b_taskId blk"
  "b_nextQuestions (completedBlock clk args blk) = Some (c_nextQuestions args)"
  "b_breakthrough (completedBlock clk args blk) = c_breakthrough args"
  "b_completed (completedBlock clk args blk)"
  by (simp_all add: completedBlock_def Let_def)

lemma completeBlock_found:
  assumes "requireActiveProject st = Inr pid" and "configs st pid = Some cfg"
    and "daySchedules st (pid, today clk) = Some sched" and "s_blocks sched = Some bs"
    and "find (\<lambda>b. b_id b = c_blockId args) bs = Some blk0"
  shows "completeBlock clk args st =
    (let blk = completedBlock clk args blk0;
         sched' = sched\<lparr>s_blocks := Some (replaceFirst (c_blockId args) blk bs)\<rparr>;
         path = orStr (activePath cfg) ''general'';
         st1 = updateLearningHistory pid path blk
                 (st\<lparr>daySchedules := (daySchedules st)((pid, today clk) \<mapsto> sched')\<rparr>)
     in (Inr \<lparr> block_completed = blk,
               opportunity_analysis = handleOpportunityDetection blk,
               next_suggested_action = suggestNextAction sched' \<rparr>,
         if c_learned args \<noteq> [] \<or> c_nextQuestions args \<noteq> [] \<or> c_breakthrough args
         then evolveHTABasedOnLearning clk pid path blk st1 else st1))"
  using assms by (simp add: completeBlock_def Let_def)

lemma loadHTA_after_history:
  "tc_loadPathHTA (updateLearningHistory pid path blk st) pid' path' = tc_loadPathHTA st pid' path'"
  by (simp add: updateLearningHistory_def savePathLearningHistory_def tc_loadPathHTA_def Let_def)

lemma loadHTA_after_schedule:
  "tc_loadPathHTA (st\<lparr>daySchedules := d\<rparr>) pid path = tc_loadPathHTA st pid path"
  by (simp add: tc_loadPathHTA_def)

lemma loadHTA_after_save:
  "tc_loadPathHTA (savePathHTA pid path h st) pid path = Some h"
  by (simp add: tc_loadPathHTA_def savePathHTA_def)

lemma generateOpportunityTasks_engagement_only:
  assumes "engagementLevel ctx \<ge> 8" and "externalFeedback ctx = []" and "\<not> viralPotential ctx"
  shows "generateOpportunityTasks blk ctx h =
           [amplifyTask blk (length (orNodes (frontierNodes h)) + 2000)]"
  using assms by (simp add: generateOpportunityTasks_def hasPositive_def Let_def)

lemma generateFollowUpTasks_no_questions:
  "b_nextQuestions blk = Some [] \<Longrightarrow> generateFollowUpTasks blk h = []"
  by (simp add: generateFollowUpTasks_def truthyStr_def Let_def)


lemma evolveHTA_engagement_only:
  assumes "tc_loadPathHTA st pid path = Some h"
    and "b_opportunityContext blk = Some ctx"
    and "engagementLevel ctx \<ge> 8" and "externalFeedback ctx = []" and "\<not> viralPotential ctx"
    and "b_nextQuestions blk = Some []"
    and "old = orNodes (if truthyStr (b_taskId blk)
                        then map_option (markCompleted blk (orStr (b_taskId blk) []))
                               (frontierNodes h)
                        else frontierNodes h)"
  shows "map_option frontierNodes
           (tc_loadPathHTA (evolveHTABasedOnLearning clk pid path blk st) pid path)
         = Some (Some (old @ [amplifyTask blk (length old + 2000)]))"
  using assms
  by (simp add: evolveHTABasedOnLearning_def Let_def loadHTA_after_save
        generateFollowUpTasks_no_questions generateOpportunityTasks_engagement_only
        truthyStr_def)

text \<open>
  C8 (as the code has it). For a block completed with engagement level 9, no next
  questions, no external feedback and no viral flag: \<open>generateOpportunityTasks\<close> yields
  exactly one node, of type \<open>breakthrough_amplification\<close> and priority 350, and
  \<open>completeBlock\<close> appends exactly that node to the frontier (after marking the linked
  node completed) when a learned text or the breakthrough flag is given. When neither is
  given, and there are no next questions, the task graph is left as it was.
\<close>

theorem opportunity_node_from_engagement:
  assumes "requireActiveProject st = Inr pid" and "configs st pid = Some cfg"
    and "daySchedules st (pid, today clk) = Some sched" and "s_blocks sched = Some bs"
    and "find (\<lambda>b. b_id b = c_blockId args) bs = Some blk0"
    and "path = orStr (activePath cfg) ''general''"
    and "tc_loadPathHTA st pid path = Some h"
    and "c_engagementLevel args = 9" and "c_nextQuestions args = []"
    and "c_externalFeedback args = []" and "\<not> c_viralPotential args"
    and "blk = completedBlock clk args blk0"
    and "old = orNodes (if truthyStr (b_taskId blk0)
                        then map_option (markCompleted blk (orStr (b_taskId blk0) []))
                               (frontierNodes h)
                        else frontierNodes h)"
  shows "(c_learned args \<noteq> [] \<or> c_breakthrough args \<longrightarrow>
            map_option frontierNodes
              (tc_loadPathHTA (snd (completeBlock clk args st)) pid path)
            = Some (Some (old @ [amplifyTask blk (length old + 2000)])))
       \<and> n_opportunityType (amplifyTask blk (length old + 2000))
            = Some ''breakthrough_amplification''
       \<and> n_priority (amplifyTask blk (length old + 2000)) = Some 350
       \<and> (c_learned args = [] \<and> \<not> c_breakthrough args \<longrightarrow>
            tc_loadPathHTA (snd (completeBlock clk args st)) pid path = Some h)"
proof -
  let ?sched = "sched\<lparr>s_blocks := Some (replaceFirst (c_blockId args) blk bs)\<rparr>"
  let ?st1 = "updateLearningHistory pid path blk
                (st\<lparr>daySchedules := (daySchedules st)((pid, today clk) \<mapsto> ?sched)\<rparr>)"
  have snd_eq: "snd (completeBlock clk args st) =
      (if c_learned args \<noteq> [] \<or> c_nextQuestions args \<noteq> [] \<or> c_breakthrough args
       then evolveHTABasedOnLearning clk pid path blk ?st1 else ?st1)"
    using completeBlock_found [OF assms(1-5)] assms(6,12) by (simp add: Let_def)
  have load1: "tc_loadPathHTA ?st1 pid path = Some h"
    using assms(7) by (simp add: loadHTA_after_history loadHTA_after_schedule)
  have ctx: "b_opportunityContext blk = Some
      \<lparr> engagementLevel = 9, unexpectedResults = c_unexpectedResults args,
        newSkillsRevealed = c_newSkillsRevealed args, externalFeedback = [],
        socialReactions = c_socialReactions args, viralPotential = False,
        industryConnections = c_industryConnections args,
        serendipitousEvents = c_serendipitousEvents args \<rparr>"
    using assms(8,10,11,12) by (simp add: completedBlock_context)
  have old: "old = orNodes (if truthyStr (b_taskId blk)
                        then map_option (markCompleted blk (orStr (b_taskId blk) []))
                               (frontierNodes h)
                        else frontierNodes h)"
    using assms(12,13) by (simp add: completedBlock_fields)
  have q: "b_nextQuestions blk = Some []"
    using assms(9,12) by (simp add: completedBlock_fields)
  have appended: "map_option frontierNodes
           (tc_loadPathHTA (evolveHTABasedOnLearning clk pid path blk ?st1) pid path)
         = Some (Some (old @ [amplifyTask blk (length old + 2000)]))"
    by (rule evolveHTA_engagement_only [OF load1 ctx _ _ _ q old]) simp_all
  show ?thesis
    using appended load1 assms(9) by (simp add: snd_eq amplifyTask_def)
qed

lemma completionStore_facts:
  "requireActiveProject completionStore = Inr ''p1''"
  "configs completionStore ''p1'' = Some \<lparr>activePath = None, life_structure_preferences = None\<rparr>"
  "daySchedules completionStore (''p1'', today demoClock) = Some completionDay"
  "s_blocks completionDay = Some [learningBlock scenarioTask 1 420 30]"
  "tc_loadPathHTA completionStore ''p1'' ''general'' = Some completionHTA"
  "projectHTA completionStore ''p1'' = Some completionHTA"
  by (simp_all add: completionStore_def plainStore_def requireActiveProject_def
        tc_loadPathHTA_def completionDay_def)

lemma learningBlock_id:
  "b_id (learningBlock task 1 start d) = ''task_1''"
  "b_id (learningBlock task (Suc 0) start d) = ''task_1''"
  by (simp_all add: learningBlock_def newBlock_def)

lemma learningBlock_taskId: "b_taskId (learningBlock task k s d) = Some (n_id task)"
  by (simp add: learningBlock_def newBlock_def)


lemma found_task_1:
  "find (\<lambda>b. b_id b = ''task_1'') [learningBlock scenarioTask 1 420 30]
     = Some (learningBlock scenarioTask 1 420 30)"
  by (simp add: learningBlock_id)

theorem opportunity_node_from_engagement_witness:
  "map_option (map_option (map n_priority) \<circ> frontierNodes)
     (tc_loadPathHTA (snd (completeBlock demoClock engagedLearned completionStore))
        ''p1'' ''general'')
   = Some (Some [Some 200, Some 350])"
proof -
  let ?orig = "learningBlock scenarioTask 1 420 30"
  let ?fin = "completedBlock demoClock engagedLearned ?orig"
  let ?old = "orNodes (if truthyStr (b_taskId ?orig)
                       then map_option (markCompleted ?fin (orStr (b_taskId ?orig) []))
                              (frontierNodes completionHTA)
                       else frontierNodes completionHTA)"
  have args: "c_engagementLevel engagedLearned = 9" "c_nextQuestions engagedLearned = []"
    "c_externalFeedback engagedLearned = []" "\<not> c_viralPotential engagedLearned"
    and learned: "c_learned engagedLearned \<noteq> []"
    and bid: "c_blockId engagedLearned = ''task_1''"
    by (simp_all add: engagedLearned_def engagedCompletion_def defaultCompletion_def)
  have found: "find (\<lambda>b. b_id b = c_blockId engagedLearned) [?orig] = Some ?orig"
    by (simp add: bid learningBlock_id)
  have path: "''general'' = orStr (activePath \<lparr>activePath = None,
                 life_structure_preferences = None\<rparr>) ''general''"
    by (simp add: orStr_def)
  have "map_option frontierNodes
          (tc_loadPathHTA (snd (completeBlock demoClock engagedLearned completionStore))
             ''p1'' ''general'')
        = Some (Some (?old @ [amplifyTask ?fin (length ?old + 2000)]))"
    using opportunity_node_from_engagement
            [OF completionStore_facts(1,2,3,4) found path completionStore_facts(5) args
                refl refl] learned
    by simp
  moreover have "map n_priority ?old = [Some 200]"
    by (simp add: learningBlock_taskId truthyStr_def orStr_def scenarioTask_def
          completionHTA_def emptyHTA_def orNodes_def)
  ultimately show ?thesis
    by (auto simp: amplifyTask_def)
qed

lemma completeBlock_ungated:
  assumes "requireActiveProject st = Inr pid" and "configs st pid = Some cfg"
    and "daySchedules st (pid, today clk) = Some sched" and "s_blocks sched = Some bs"
    and "find (\<lambda>b. b_id b = c_blockId args) bs = Some blk0"
    and "c_learned args = []" and "c_nextQuestions args = []" and "\<not> c_breakthrough args"
  shows "projectHTA (snd (completeBlock clk args st)) = projectHTA st"
    and "pathHTA (snd (completeBlock clk args st)) = pathHTA st"
    and "contextOf (fst (completeBlock clk args st))
           = b_opportunityContext (completedBlock clk args blk0)"
  using completeBlock_found [OF assms(1-5)] assms(6-8)
  by (simp_all add: Let_def updateLearningHistory_def savePathLearningHistory_def contextOf_def)

text \<open>
  C8 as stated fails: completing the block with engagement level 9 and nothing else
  attaches the context, but the task graph is not touched, because the graph is only
  evolved for a completion with a learned text, next questions or a breakthrough.
\<close>

theorem engagement_alone_counterexample:
  "map_option engagementLevel
     (contextOf (fst (completeBlock demoClock engagedCompletion completionStore))) = Some 9
   \<and> projectHTA (snd (completeBlock demoClock engagedCompletion completionStore)) ''p1''
       = Some completionHTA"
proof -
  have args: "c_learned engagedCompletion = []" "c_nextQuestions engagedCompletion = []"
    "\<not> c_breakthrough engagedCompletion"
    and eng: "c_engagementLevel engagedCompletion = 9"
    and bid: "c_blockId engagedCompletion = ''task_1''"
    by (simp_all add: engagedCompletion_def defaultCompletion_def)
  have found: "find (\<lambda>b. b_id b = c_blockId engagedCompletion)
                 [learningBlock scenarioTask 1 420 30]
               = Some (learningBlock scenarioTask 1 420 30)"
    by (simp add: bid learningBlock_id)
  note ungated = completeBlock_ungated [OF completionStore_facts(1,2,3,4) found args]
  show ?thesis
    by (simp add: ungated completionStore_facts(6) completedBlock_context eng)
qed

text \<open>
  What \<open>completeBlock\<close> does for a block without a context: it attaches one iff the
  engagement level differs from 5 or there are unexpected results.
\<close>

lemma completeBlock_context_iff:
  assumes "requireActiveProject st = Inr pid" and "configs st pid = Some cfg"
    and "daySchedules st (pid, today clk) = Some sched" and "s_blocks sched = Some bs"
    and "find (\<lambda>b. b_id b = c_blockId args) bs = Some blk0"
    and "b_opportunityContext blk0 = None"
  shows "contextOf (fst (completeBlock clk args st)) \<noteq> None \<longleftrightarrow>
           c_engagementLevel args \<noteq> 5 \<or> c_unexpectedResults args \<noteq> []"
  using completeBlock_found [OF assms(1-5)] assms(6)
  by (simp add: Let_def contextOf_def completedBlock_context)

text \<open>
  C7, evaluated on the code. A completion with the default engagement level 5, no
  unexpected results and one piece of positive external feedback completes the block
  and attaches no OpportunityContext: of the list fields, the code tests
  \<open>unexpectedResults\<close> only.
\<close>

theorem feedback_without_context:
  "isCompleted (fst (completeBlock demoClock feedbackCompletion completionStore))
   \<and> c_externalFeedback feedbackCompletion \<noteq> []
   \<and> contextOf (fst (completeBlock demoClock feedbackCompletion completionStore)) = None"
proof -
  have args: "c_engagementLevel feedbackCompletion = 5"
    "c_unexpectedResults feedbackCompletion = []"
    "c_externalFeedback feedbackCompletion \<noteq> []"
    and bid: "c_blockId feedbackCompletion = ''task_1''"
    by (simp_all add: feedbackCompletion_def defaultCompletion_def)
  have found: "find (\<lambda>b. b_id b = c_blockId feedbackCompletion)
                 [learningBlock scenarioTask 1 420 30]
               = Some (learningBlock scenarioTask 1 420 30)"
    by (simp add: bid learningBlock_id)
  have fresh: "b_opportunityContext (learningBlock task k start d) = None" for task k start d
    by (simp add: learningBlock_def newBlock_def)
  note run = completeBlock_found [OF completionStore_facts(1,2,3,4) found]
  show ?thesis
    by (simp add: run Let_def isCompleted_def contextOf_def completedBlock_context
          completedBlock_fields args fresh)
qed

theorem feedback_without_context_witness:
  "map_option (length \<circ> externalFeedback)
     (contextOf (fst (completeBlock demoClock feedbackCompletion completionStore))) = None
   \<and> length (c_externalFeedback feedbackCompletion) = 1"
  using feedback_without_context
  by (simp add: feedbackCompletion_def defaultCompletion_def)

end
